theory Spec2Isabelle
  imports Main
begin

section \<open>JSON values as Python sees them\<close>

text \<open>
  \<^verbatim>\<open>json.load\<close> returns \<^verbatim>\<open>None\<close>, booleans, integers, strings, lists and
  dictionaries. A dictionary is kept as an association list in insertion order; the
  parser never returns one with a repeated key. Floating-point numbers are outside this
  model.
\<close>

datatype json =
    JNull
  | JBool bool
  | JInt int
  | JStr string
  | JArr "json list"
  | JObj "(string \<times> json) list"

datatype py_error =
    KeyError | TypeError | AttributeError | IndexError
  | UnicodeDecodeError | RecursionError | FileNotFoundError

text \<open>\<^verbatim>\<open>x[key]\<close> with a string key: only a dictionary holding the key answers.\<close>

fun py_getitem :: "json \<Rightarrow> string \<Rightarrow> py_error + json" where
  "py_getitem (JObj kvs) k = (case map_of kvs k of None \<Rightarrow> Inl KeyError | Some v \<Rightarrow> Inr v)"
| "py_getitem _ k = Inl TypeError"

text \<open>\<^verbatim>\<open>d[key] = v\<close> on a dictionary: an existing key keeps its place, a new one goes last.\<close>

fun dict_set :: "string \<Rightarrow> json \<Rightarrow> (string \<times> json) list \<Rightarrow> (string \<times> json) list" where
  "dict_set k v [] = [(k, v)]"
| "dict_set k v (p # ps) = (if fst p = k then (k, v) # ps else p # dict_set k v ps)"

fun py_setitem :: "json \<Rightarrow> string \<Rightarrow> json \<Rightarrow> py_error + json" where
  "py_setitem (JObj kvs) k v = Inr (JObj (dict_set k v kvs))"
| "py_setitem _ k v = Inl TypeError"

text \<open>Iteration, as \<^verbatim>\<open>enumerate\<close> asks for it: a dictionary yields its keys, a string its characters.\<close>

fun py_iter :: "json \<Rightarrow> py_error + json list" where
  "py_iter (JArr xs) = Inr xs"
| "py_iter (JObj kvs) = Inr (map (\<lambda>p. JStr (fst p)) kvs)"
| "py_iter (JStr s) = Inr (map (\<lambda>c. JStr [c]) s)"
| "py_iter _ = Inl TypeError"

text \<open>\<^verbatim>\<open>xs[i] = v\<close> with an integer index, and \<^verbatim>\<open>xs.append(v)\<close>.\<close>

fun list_setitem :: "json \<Rightarrow> int \<Rightarrow> json \<Rightarrow> py_error + json" where
  "list_setitem (JArr xs) i v =
     (if 0 \<le> i \<and> i < int (length xs) then Inr (JArr (xs[nat i := v])) else Inl IndexError)"
| "list_setitem _ i v = Inl TypeError"

fun py_append :: "json \<Rightarrow> json \<Rightarrow> py_error + json" where
  "py_append (JArr xs) v = Inr (JArr (xs @ [v]))"
| "py_append _ v = Inl AttributeError"

text \<open>
  Python's \<^verbatim>\<open>==\<close> on these values: \<^verbatim>\<open>True == 1\<close> and \<^verbatim>\<open>False == 0\<close> hold, lists
  compare element by element, dictionaries compare key by key whatever their order.
\<close>

fun py_eq :: "json \<Rightarrow> json \<Rightarrow> bool"
  and py_eq_list :: "json list \<Rightarrow> json list \<Rightarrow> bool"
  and py_eq_dict :: "(string \<times> json) list \<Rightarrow> (string \<times> json) list \<Rightarrow> bool" where
  "py_eq JNull b = (case b of JNull \<Rightarrow> True | _ \<Rightarrow> False)"
| "py_eq (JBool x) b =
     (case b of JBool y \<Rightarrow> x = y | JInt n \<Rightarrow> (if x then 1 else 0) = n | _ \<Rightarrow> False)"
| "py_eq (JInt m) b =
     (case b of JInt n \<Rightarrow> m = n | JBool y \<Rightarrow> m = (if y then 1 else 0) | _ \<Rightarrow> False)"
| "py_eq (JStr s) b = (case b of JStr t \<Rightarrow> s = t | _ \<Rightarrow> False)"
| "py_eq (JArr xs) b = (case b of JArr ys \<Rightarrow> py_eq_list xs ys | _ \<Rightarrow> False)"
| "py_eq (JObj kvs) b =
     (case b of JObj kws \<Rightarrow> length kvs = length kws \<and> py_eq_dict kvs kws | _ \<Rightarrow> False)"
| "py_eq_list [] ys = (ys = [])"
| "py_eq_list (x # xs) ys = (case ys of [] \<Rightarrow> False | y # ys' \<Rightarrow> py_eq x y \<and> py_eq_list xs ys')"
| "py_eq_dict [] kws = True"
| "py_eq_dict (p # kvs) kws =
     (case map_of kws (fst p) of None \<Rightarrow> False | Some w \<Rightarrow> py_eq (snd p) w \<and> py_eq_dict kvs kws)"

section \<open>The registry: \<^verbatim>\<open>update_registry.py\<close>\<close>

text \<open>
  What the function finds on disk when it starts:
  \<^item> \<open>NoDir\<close>: the directory \<^verbatim>\<open>dist\<close> is missing, and so is the file;
  \<^item> \<open>NoFile\<close>: the directory is there, \<^verbatim>\<open>registry.json\<close> is not;
  \<^item> \<open>BadJSON\<close>: the file holds text that \<^verbatim>\<open>json.load\<close> rejects with
    \<^verbatim>\<open>JSONDecodeError\<close>, the one exception line 14 catches;
  \<^item> \<open>NotUTF8\<close>: the file holds bytes that are not UTF-8, so reading it raises
    \<^verbatim>\<open>UnicodeDecodeError\<close>, which line 14 does not catch;
  \<^item> \<open>TooDeep\<close>: the file holds brackets nested deeper than the parser's recursion
    limit, so \<^verbatim>\<open>json.load\<close> raises \<^verbatim>\<open>RecursionError\<close>, which line 14 does not catch;
  \<^item> \<open>Valid doc\<close>: the file holds the JSON document \<open>doc\<close>.
  A file that exists is taken to be readable and writable by the process, and writing a
  value with \<^verbatim>\<open>json.dump\<close> leaves the document that reading gives back.
\<close>

datatype disk = NoDir | NoFile | BadJSON | NotUTF8 | TooDeep | Valid json

definition empty_registry :: json where
  "empty_registry = JObj [(''models'', JArr []), (''lastUpdated'', JStr [])]"

text \<open>Lines 10 to 17: the registry the function starts from, or the exception reading raises.\<close>

fun load_registry :: "disk \<Rightarrow> py_error + json" where
  "load_registry NoDir = Inr empty_registry"
| "load_registry NoFile = Inr empty_registry"
| "load_registry BadJSON = Inr empty_registry"
| "load_registry NotUTF8 = Inl UnicodeDecodeError"
| "load_registry TooDeep = Inl RecursionError"
| "load_registry (Valid doc) = Inr doc"

text \<open>
  Lines 33 and 34: \<^verbatim>\<open>open(registry_path, "w")\<close> creates or truncates the file, and
  raises \<^verbatim>\<open>FileNotFoundError\<close> when the directory is missing (the function never
  creates it); then the document is written.
\<close>

fun write_registry :: "disk \<Rightarrow> json \<Rightarrow> py_error + disk" where
  "write_registry NoDir doc = Inl FileNotFoundError"
| "write_registry d doc = Inr (Valid doc)"

text \<open>
  The scan of lines 20 to 24. The third argument is the index \<^verbatim>\<open>enumerate\<close> has
  reached. The left operand \<^verbatim>\<open>model["id"]\<close> is evaluated before
  \<^verbatim>\<open>model_metadata["id"]\<close>; the result is \<^verbatim>\<open>existing_model_idx\<close>.
\<close>

fun find_existing :: "json list \<Rightarrow> json \<Rightarrow> nat \<Rightarrow> py_error + int" where
  "find_existing [] model_metadata i = Inr (- 1)"
| "find_existing (model # rest) model_metadata i =
     (case py_getitem model ''id'' of
        Inl err \<Rightarrow> Inl err
      | Inr a \<Rightarrow>
          (case py_getitem model_metadata ''id'' of
             Inl err \<Rightarrow> Inl err
           | Inr b \<Rightarrow>
               if py_eq a b then Inr (int i) else find_existing rest model_metadata (Suc i)))"

text \<open>
  \<^verbatim>\<open>update_registry(model_metadata)\<close>; \<open>today\<close> is the date string of
  \<^verbatim>\<open>datetime.now()\<close>. \<open>Inl\<close> is an exception that leaves the file as it was (the
  file is opened for writing only after every other step), \<open>Inr\<close> the file written.
\<close>

definition update_registry :: "json \<Rightarrow> string \<Rightarrow> disk \<Rightarrow> py_error + disk" where
  "update_registry model_metadata today d =
     (case load_registry d of
        Inl err \<Rightarrow> Inl err
      | Inr registry \<Rightarrow>
      case py_getitem registry ''models'' of
        Inl err \<Rightarrow> Inl err
      | Inr models \<Rightarrow>
      (case py_iter models of
        Inl err \<Rightarrow> Inl err
      | Inr items \<Rightarrow>
      (case find_existing items model_metadata 0 of
        Inl err \<Rightarrow> Inl err
      | Inr existing_model_idx \<Rightarrow>
      (case (if existing_model_idx \<ge> 0
             then list_setitem models existing_model_idx model_metadata
             else py_append models model_metadata) of
        Inl err \<Rightarrow> Inl err
      | Inr models' \<Rightarrow>
      (case py_setitem registry ''models'' models' of
        Inl err \<Rightarrow> Inl err
      | Inr registry' \<Rightarrow>
      (case py_setitem registry' ''lastUpdated'' (JStr today) of
        Inl err \<Rightarrow> Inl err
      | Inr registry'' \<Rightarrow> write_registry d registry''))))))"

text \<open>Reading a result: the entries of the persisted document, and the string id of an entry.\<close>

definition registry_models :: "disk \<Rightarrow> json list" where
  "registry_models d =
     (case d of
        Valid (JObj kvs) \<Rightarrow> (case map_of kvs ''models'' of Some (JArr ms) \<Rightarrow> ms | _ \<Rightarrow> [])
      | _ \<Rightarrow> [])"

definition entry_id :: "json \<Rightarrow> string option" where
  "entry_id m = (case py_getitem m ''id'' of Inr (JStr s) \<Rightarrow> Some s | _ \<Rightarrow> None)"

section \<open>Shapes and models of the conversion library\<close>

text \<open>
  \<^verbatim>\<open>ct.RangeDim(lower_bound, upper_bound, default)\<close> is a dimension that may vary at
  inference time; the third field is \<open>None\<close> where the source passes no default. A
  shape is a tuple of fixed sizes and such ranges, a \<^verbatim>\<open>ct.TensorType\<close> a named shape
  with an element type (\<open>None\<close> where the source gives none).
\<close>

datatype dim = Fixed int | RangeDim int int "int option"

datatype dtype = Int32 | Float16 | Float32

record tensor_type =
  tt_name :: string
  tt_shape :: "dim list"
  tt_dtype :: "dtype option"

datatype precision = FLOAT16 | FLOAT32

text \<open>
  What the scripts can see of a converted model: the declared inputs and outputs, the
  compute precision, whether the weights went through
  \<^verbatim>\<open>affine_quantize_weights(mode="linear_symmetric", dtype=np.int8)\<close>, and the metadata.
\<close>

record mlmodel =
  ml_inputs :: "tensor_type list"
  ml_outputs :: "tensor_type list"
  ml_precision :: precision
  int8_weights :: bool
  author :: string
  short_description :: string
  version :: string
  user_defined_metadata :: "(string \<times> string) list"

text \<open>
  What a run does to the outside: the lines it prints (without their emoji) and the
  calls into the conversion library, in the order they happen.
\<close>

datatype event =
    Print string
  | CtConvert "tensor_type list" precision
  | AffineQuantizeWeights
  | Save string
  | LoadPackage string
  | Predict string

text \<open>\<^verbatim>\<open>str(n)\<close> for an integer.\<close>

definition digit_char :: "nat \<Rightarrow> char" where
  "digit_char n = char_of (48 + n)"

function str_nat :: "nat \<Rightarrow> string" where
  "str_nat n = (if n < 10 then [digit_char n] else str_nat (n div 10) @ [digit_char (n mod 10)])"
  by pat_completeness auto
termination
  by (relation "measure (\<lambda>n. n)") auto

definition str_int :: "int \<Rightarrow> string" where
  "str_int i = (if i < 0 then CHR ''-'' # str_nat (nat (- i)) else str_nat (nat i))"

section \<open>The causal-model converter: \<^verbatim>\<open>convert_gemma_to_coreml.py\<close>\<close>

text \<open>
  The library calls of \<^verbatim>\<open>convert_to_coreml\<close> and \<^verbatim>\<open>validate_model\<close> either return
  or raise; which of the two is a parameter of the run, the exception given by its
  message. The other calls of the two functions are taken to return.
\<close>

record gemma_lib =
  convert_raises :: "string option"
  quantize_raises :: "string option"
  save_raises :: "string option"
  load_raises :: "string option"
  predict_raises :: "string option"

record run_state =
  packages :: "(string \<times> mlmodel) list"
  events :: "event list"

definition emit :: "event \<Rightarrow> run_state \<Rightarrow> run_state" where
  "emit ev s = s\<lparr>events := events s @ [ev]\<rparr>"

text \<open>The calls into the library among the events of a run, without the printed lines.\<close>

definition lib_calls :: "event list \<Rightarrow> event list" where
  "lib_calls evs = filter (\<lambda>ev. case ev of Print line \<Rightarrow> False | _ \<Rightarrow> True) evs"

text \<open>Lines 206 to 208: the shape of both token tensors.\<close>

definition input_shape :: "int \<Rightarrow> dim list" where
  "input_shape max_length = [Fixed 1, RangeDim 1 max_length (Some 128)]"

text \<open>
  Whether the declared default of a dimension lies between its bounds. A range without
  a declared default, and a fixed size, have nothing to check.
\<close>

fun default_within_bounds :: "dim \<Rightarrow> bool" where
  "default_within_bounds (RangeDim lower upper (Some d)) = (lower \<le> d \<and> d \<le> upper)"
| "default_within_bounds (RangeDim lower upper None) = True"
| "default_within_bounds (Fixed n) = True"

definition gemma_inputs :: "int \<Rightarrow> tensor_type list" where
  "gemma_inputs max_length =
     [\<lparr>tt_name = ''input_ids'', tt_shape = input_shape max_length, tt_dtype = Some Int32\<rparr>,
      \<lparr>tt_name = ''attention_mask'', tt_shape = input_shape max_length, tt_dtype = Some Int32\<rparr>]"

definition gemma_outputs :: "tensor_type list" where
  "gemma_outputs = [\<lparr>tt_name = ''logits'', tt_shape = [], tt_dtype = Some Float16\<rparr>]"

text \<open>Lines 211 to 219: the precision handed to \<^verbatim>\<open>ct.convert\<close>, and the line printed.\<close>

definition select_precision :: "string option \<Rightarrow> precision \<times> string" where
  "select_precision quantize =
     (if quantize = Some ''float16'' then (FLOAT16, ''   Using FLOAT16 precision'')
      else if quantize = Some ''int8'' then (FLOAT16, ''   Using INT8 quantization'')
      else (FLOAT32, ''   Using FLOAT32 precision''))"

text \<open>Lines 255 to 262: the metadata stamped on the model before it is saved.\<close>

definition stamp_metadata :: "int \<Rightarrow> mlmodel \<Rightarrow> mlmodel" where
  "stamp_metadata max_length m =
     m\<lparr>author := ''TranslateLocal'',
       short_description := ''Gemma-3n-E2B for on-device translation'',
       version := ''1.0.0'',
       user_defined_metadata :=
         user_defined_metadata m @
           [(''model_type'', ''translation''),
            (''source_model'', ''google/gemma-3n-e2b-it''),
            (''max_sequence_length'', str_int max_length)]\<rparr>"

text \<open>
  \<^verbatim>\<open>convert_to_coreml(traced_model, max_length, quantize, output_path)\<close>. The result is
  the exception that leaves the function, or the model it returns, with the state the
  run leaves behind. A package written to a path replaces the one that was there. The
  line that reports the size of the package is left out.
\<close>

definition gemma_convert_to_coreml ::
  "gemma_lib \<Rightarrow> int \<Rightarrow> string option \<Rightarrow> string \<Rightarrow> run_state \<Rightarrow> (string + mlmodel) \<times> run_state" where
  "gemma_convert_to_coreml lib max_length quantize output_path s0 =
     (let s1 = emit (Print ''Converting to Core ML...'') s0;
          compute_precision = fst (select_precision quantize);
          s2 = emit (Print (snd (select_precision quantize))) s1;
          s3 = emit (CtConvert (gemma_inputs max_length) compute_precision) s2
      in case convert_raises lib of
           Some err \<Rightarrow> (Inl err, s3)
         | None \<Rightarrow>
             (let coreml_model =
                    \<lparr>ml_inputs = gemma_inputs max_length, ml_outputs = gemma_outputs,
                     ml_precision = compute_precision, int8_weights = False,
                     author = [], short_description = [], version = [],
                     user_defined_metadata = []\<rparr>;
                  quantized =
                    (if quantize = Some ''int8''
                     then (let s4 = emit AffineQuantizeWeights
                                      (emit (Print ''   Applying INT8 quantization...'') s3)
                           in case quantize_raises lib of
                                Some err \<Rightarrow> (Inl err, s4)
                              | None \<Rightarrow> (Inr (coreml_model\<lparr>int8_weights := True\<rparr>), s4))
                     else (Inr coreml_model, s3))
              in case quantized of
                   (Inl err, s4) \<Rightarrow> (Inl err, s4)
                 | (Inr m, s4) \<Rightarrow>
                     (let m' = stamp_metadata max_length m;
                          s5 = emit (Save output_path) s4
                      in case save_raises lib of
                           Some err \<Rightarrow> (Inl err, s5)
                         | None \<Rightarrow>
                             (Inr m',
                              emit (Print (''   Model saved to: '' @ output_path))
                                (s5\<lparr>packages :=
                                     (output_path, m') # filter (\<lambda>p. fst p \<noteq> output_path) (packages s5)\<rparr>)))))"


section \<open>The encoder/decoder converter: \<^verbatim>\<open>convert_opus_to_coreml.py\<close>\<close>

definition OPUS_MODELS :: "(string \<times> string) list" where
  "OPUS_MODELS =
     [(''en-es'', ''Helsinki-NLP/opus-mt-en-es''), (''es-en'', ''Helsinki-NLP/opus-mt-es-en''),
      (''en-ja'', ''Helsinki-NLP/opus-mt-en-jap''), (''ja-en'', ''Helsinki-NLP/opus-mt-jap-en''),
      (''en-zh'', ''Helsinki-NLP/opus-mt-en-zh''), (''zh-en'', ''Helsinki-NLP/opus-mt-zh-en''),
      (''en-fr'', ''Helsinki-NLP/opus-mt-en-fr''), (''fr-en'', ''Helsinki-NLP/opus-mt-fr-en''),
      (''en-de'', ''Helsinki-NLP/opus-mt-en-de''), (''de-en'', ''Helsinki-NLP/opus-mt-de-en''),
      (''ko-en'', ''Helsinki-NLP/opus-mt-ko-en''),
      (''en-it'', ''Helsinki-NLP/opus-mt-en-it''), (''it-en'', ''Helsinki-NLP/opus-mt-it-en''),
      (''en-pt'', ''Helsinki-NLP/opus-mt-en-pt''), (''pt-en'', ''Helsinki-NLP/opus-mt-ROMANCE-en''),
      (''en-ru'', ''Helsinki-NLP/opus-mt-en-ru''), (''ru-en'', ''Helsinki-NLP/opus-mt-ru-en''),
      (''en-ar'', ''Helsinki-NLP/opus-mt-en-ar''), (''ar-en'', ''Helsinki-NLP/opus-mt-ar-en''),
      (''en-hi'', ''Helsinki-NLP/opus-mt-en-hi''), (''hi-en'', ''Helsinki-NLP/opus-mt-hi-en'')]"

definition DEFAULT_BUNDLE_MODELS :: "string list" where
  "DEFAULT_BUNDLE_MODELS = [''en-es'', ''es-en'']"

text \<open>
  The calls that load, trace and convert either return or raise an \<^verbatim>\<open>Exception\<close>,
  given by its message; which of the two, for which model, is a parameter of the run.
  \<open>hidden_width\<close> is \<^verbatim>\<open>model.config.d_model\<close> of the model loaded from a path.
  Creating directories and writing files are taken to return.
\<close>

datatype part = Encoder | Decoder

record opus_lib =
  raw_model_exists :: "string \<Rightarrow> bool"
  tokenizer_raises :: "string \<Rightarrow> string option"
  model_raises :: "string \<Rightarrow> string option"
  hidden_width :: "string \<Rightarrow> int"
  trace_raises :: "string \<Rightarrow> part \<Rightarrow> string option"
  ct_convert_raises :: "string \<Rightarrow> tensor_type list \<Rightarrow> precision \<Rightarrow> string option"

text \<open>
  An \<^verbatim>\<open>OpusModelConverter\<close>: \<open>loaded\<close> is \<open>None\<close> while \<^verbatim>\<open>self.model\<close> is
  \<^verbatim>\<open>None\<close>, and holds the hidden width of the loaded model afterwards.
\<close>

record converter =
  model_name :: string
  hf_model_id :: string
  loaded :: "int option"

definition new_converter :: "string \<Rightarrow> string \<Rightarrow> converter" where
  "new_converter n hf = \<lparr>model_name = n, hf_model_id = hf, loaded = None\<rparr>"

text \<open>Lines 193 to 196 and 216 to 220: the inputs declared for the two packages.\<close>

definition encoder_inputs :: "tensor_type list" where
  "encoder_inputs =
     [\<lparr>tt_name = ''input_ids'', tt_shape = [Fixed 1, RangeDim 1 512 None], tt_dtype = Some Int32\<rparr>,
      \<lparr>tt_name = ''attention_mask'', tt_shape = [Fixed 1, RangeDim 1 512 None], tt_dtype = Some Int32\<rparr>]"

definition decoder_inputs :: "int \<Rightarrow> tensor_type list" where
  "decoder_inputs d_model =
     [\<lparr>tt_name = ''decoder_input_ids'', tt_shape = [Fixed 1, RangeDim 1 512 None],
       tt_dtype = Some Int32\<rparr>,
      \<lparr>tt_name = ''encoder_hidden_states'', tt_shape = [Fixed 1, RangeDim 1 512 None, Fixed d_model],
       tt_dtype = Some Float32\<rparr>,
      \<lparr>tt_name = ''encoder_attention_mask'', tt_shape = [Fixed 1, RangeDim 1 512 None],
       tt_dtype = Some Int32\<rparr>]"

text \<open>Lines 144 to 146: the shapes of the example tensors the decoder is traced with.\<close>

definition decoder_trace_shapes :: "int \<Rightarrow> int \<Rightarrow> int list list" where
  "decoder_trace_shapes max_length d_model = [[1, 1], [1, max_length, d_model], [1, max_length]]"

text \<open>
  The lines the script prints, one constructor for each \<^verbatim>\<open>print\<close> of the source with
  the values it formats in, and the state of a run: the files written so far and the
  lines printed so far.
\<close>

datatype opus_line =
    Separator
  | ConvertingName string
  | FoundLocal string
  | LoadingFromHub string
  | ModelLoaded
  | UsingPrecision precision
  | ConvertingPart part
  | TracingPart part
  | PartSaved part string
  | ConfigSaved string
  | ConvertedOk string
  | FailedToConvert string string
  | SpecifyModel
  | ConvertingCount nat
  | OutputDirectory string
  | ConversionComplete
  | NextSteps

record opus_state =
  files :: "string list"
  out :: "opus_line list"

definition say :: "opus_line \<Rightarrow> opus_state \<Rightarrow> opus_state" where
  "say line s = s\<lparr>out := out s @ [line]\<rparr>"

definition write_file :: "string \<Rightarrow> opus_state \<Rightarrow> opus_state" where
  "write_file path s = s\<lparr>files := files s @ [path]\<rparr>"

definition load_model :: "opus_lib \<Rightarrow> converter \<Rightarrow> opus_state \<Rightarrow> (string + converter) \<times> opus_state" where
  "load_model lib c s0 =
     (let local_path = ''raw_models/'' @ model_name c;
          load_path = (if raw_model_exists lib local_path then local_path else hf_model_id c);
          s1 = (if raw_model_exists lib local_path
                then say (FoundLocal local_path) s0
                else say (LoadingFromHub (hf_model_id c)) s0)
      in case tokenizer_raises lib load_path of
           Some err \<Rightarrow> (Inl err, s1)
         | None \<Rightarrow>
             (case model_raises lib load_path of
                Some err \<Rightarrow> (Inl err, s1)
              | None \<Rightarrow>
                  (Inr (c\<lparr>loaded := Some (hidden_width lib load_path)\<rparr>), say ModelLoaded s1)))"

text \<open>
  \<^verbatim>\<open>trace_encoder\<close> and \<^verbatim>\<open>trace_decoder\<close> read \<^verbatim>\<open>self.model.config\<close> first, which
  raises \<^verbatim>\<open>AttributeError\<close> on a converter that was never loaded.
\<close>

definition trace_part :: "opus_lib \<Rightarrow> converter \<Rightarrow> part \<Rightarrow> opus_state \<Rightarrow> (string + int) \<times> opus_state" where
  "trace_part lib c p s0 =
     (let s1 = say (TracingPart p) s0
      in case loaded c of
           None \<Rightarrow> (Inl ''AttributeError'', s1)
         | Some d_model \<Rightarrow>
             (case trace_raises lib (model_name c) p of
                Some err \<Rightarrow> (Inl err, s1)
              | None \<Rightarrow> (Inr d_model, s1)))"

definition model_output_name :: "string \<Rightarrow> string" where
  "model_output_name n = ''OpusMT_'' @ map (\<lambda>ch. if ch = CHR ''-'' then CHR ''_'' else ch) n"

definition save_tokenizer_config :: "string \<Rightarrow> string \<Rightarrow> opus_state \<Rightarrow> opus_state" where
  "save_tokenizer_config output_path nm s =
     say (ConfigSaved (output_path @ ''/'' @ nm @ ''_config.json''))
       (write_file (output_path @ ''/'' @ nm @ ''_vocab.json'')
         (write_file (output_path @ ''/'' @ nm @ ''_config.json'') s))"

text \<open>
  \<^verbatim>\<open>OpusModelConverter.convert_to_coreml(output_dir, quantize)\<close>: the encoder is traced,
  converted and saved, then the decoder, then the tokenizer files; the first call that
  raises ends the function. The result is the pair of package paths.
\<close>

definition opus_convert_to_coreml ::
  "opus_lib \<Rightarrow> converter \<Rightarrow> string \<Rightarrow> string \<Rightarrow> opus_state \<Rightarrow> (string + string \<times> string) \<times> opus_state" where
  "opus_convert_to_coreml lib c output_dir quantize s0 =
     (let nm = model_output_name (model_name c);
          compute_precision = (if quantize = ''float16'' then FLOAT16 else FLOAT32);
          s1 = say (UsingPrecision compute_precision) s0;
          s2 = say (ConvertingPart Encoder) s1
      in case trace_part lib c Encoder s2 of
           (Inl err, s3) \<Rightarrow> (Inl err, s3)
         | (Inr d, s3) \<Rightarrow>
      (case ct_convert_raises lib (model_name c) encoder_inputs compute_precision of
           Some err \<Rightarrow> (Inl err, s3)
         | None \<Rightarrow>
      (let encoder_path = output_dir @ ''/'' @ nm @ ''_encoder.mlpackage'';
           s4 = say (PartSaved Encoder encoder_path) (write_file encoder_path s3);
           s5 = say (ConvertingPart Decoder) s4
       in case trace_part lib c Decoder s5 of
            (Inl err, s6) \<Rightarrow> (Inl err, s6)
          | (Inr d_model, s6) \<Rightarrow>
       (case ct_convert_raises lib (model_name c) (decoder_inputs d_model) compute_precision of
            Some err \<Rightarrow> (Inl err, s6)
          | None \<Rightarrow>
       (let decoder_path = output_dir @ ''/'' @ nm @ ''_decoder.mlpackage'';
            s7 = say (PartSaved Decoder decoder_path) (write_file decoder_path s6)
        in (Inr (encoder_path, decoder_path), save_tokenizer_config output_dir nm s7))))))"

text \<open>
  The \<^verbatim>\<open>try\<close> block of the loop, lines 316 to 322: \<open>None\<close> when it ran to its end,
  the exception it caught otherwise.
\<close>

definition try_convert ::
  "opus_lib \<Rightarrow> converter \<Rightarrow> string \<Rightarrow> string \<Rightarrow> opus_state \<Rightarrow> string option \<times> opus_state" where
  "try_convert lib c output quantize s =
     (case load_model lib c s of
        (Inl err, s2) \<Rightarrow> (Some err, say (FailedToConvert (model_name c) err) s2)
      | (Inr c', s2) \<Rightarrow>
          (case opus_convert_to_coreml lib c' output quantize s2 of
             (Inl err, s3) \<Rightarrow> (Some err, say (FailedToConvert (model_name c) err) s3)
           | (Inr paths, s3) \<Rightarrow> (None, say (ConvertedOk (model_name c)) s3)))"

text \<open>
  The loop of \<^verbatim>\<open>main\<close>, lines 308 to 322. The lookup in \<^verbatim>\<open>OPUS_MODELS\<close> is outside
  the handler, so an unknown name ends the loop with \<^verbatim>\<open>KeyError\<close>; after the
  \<^verbatim>\<open>try\<close> block, whatever it caught, the loop goes on with the next name.
\<close>

fun convert_models ::
  "opus_lib \<Rightarrow> string list \<Rightarrow> string \<Rightarrow> string \<Rightarrow> opus_state \<Rightarrow> (string + unit) \<times> opus_state" where
  "convert_models lib [] output quantize s = (Inr (), s)"
| "convert_models lib (n # rest) output quantize s =
     (let s1 = say Separator (say (ConvertingName n) (say Separator s))
      in case map_of OPUS_MODELS n of
           None \<Rightarrow> (Inl ''KeyError'', s1)
         | Some hf \<Rightarrow>
             convert_models lib rest output quantize
               (snd (try_convert lib (new_converter n hf) output quantize s1)))"

text \<open>
  \<^verbatim>\<open>main\<close> from line 304 on, for the list \<^verbatim>\<open>models_to_convert\<close>: the two header
  lines, the loop, the closing lines. The result is the exit status of the process
  (1 for \<^verbatim>\<open>sys.exit(1)\<close> and for an exception nothing catches, 0 for a normal return).
\<close>

definition convert_batch ::
  "opus_lib \<Rightarrow> string list \<Rightarrow> string \<Rightarrow> string \<Rightarrow> opus_state \<Rightarrow> int \<times> opus_state" where
  "convert_batch lib models_to_convert output quantize s0 =
     (let s1 = say (OutputDirectory output) (say (ConvertingCount (length models_to_convert)) s0)
      in case convert_models lib models_to_convert output quantize s1 of
           (Inl err, s2) \<Rightarrow> (1, s2)
         | (Inr u, s2) \<Rightarrow> (0, say NextSteps (say ConversionComplete s2)))"

text \<open>\<^verbatim>\<open>main\<close> after argument parsing, lines 295 to 302 and then the batch.\<close>

record opus_args =
  arg_all :: bool
  arg_model :: "string option"
  arg_output :: string
  arg_quantize :: string

definition opus_main :: "opus_lib \<Rightarrow> opus_args \<Rightarrow> opus_state \<Rightarrow> int \<times> opus_state" where
  "opus_main lib args s0 =
     (if arg_all args
      then convert_batch lib DEFAULT_BUNDLE_MODELS (arg_output args) (arg_quantize args) s0
      else (case arg_model args of
              Some m \<Rightarrow> convert_batch lib [m] (arg_output args) (arg_quantize args) s0
            | None \<Rightarrow> (1, say SpecifyModel s0)))"

text \<open>
  For stating what a batch reports. \<open>verdicts\<close> keeps the lines that give a verdict
  on a model. The rest says, from the outcomes of the library calls alone, what the
  verdict on a name has to be: \<open>source_of\<close> is where its model is loaded from,
  \<open>raised_by_calls\<close> the exception of the first call that raises among the six the
  script makes for it, in the order it makes them (tokenizer, model, encoder trace,
  encoder conversion, decoder trace, decoder conversion), and \<open>verdict_for\<close> the
  line that reports it for a name known to \<^verbatim>\<open>OPUS_MODELS\<close>.
\<close>

definition verdicts :: "opus_line list \<Rightarrow> opus_line list" where
  "verdicts ls =
     filter (\<lambda>l. case l of ConvertedOk n \<Rightarrow> True | FailedToConvert n err \<Rightarrow> True | _ \<Rightarrow> False) ls"

definition source_of :: "opus_lib \<Rightarrow> string \<Rightarrow> string \<Rightarrow> string" where
  "source_of lib n hf =
     (if raw_model_exists lib (''raw_models/'' @ n) then ''raw_models/'' @ n else hf)"

fun first_raised :: "string option list \<Rightarrow> string option" where
  "first_raised [] = None"
| "first_raised (None # calls) = first_raised calls"
| "first_raised (Some err # calls) = Some err"

definition raised_by_calls :: "opus_lib \<Rightarrow> string \<Rightarrow> string \<Rightarrow> string \<Rightarrow> string option" where
  "raised_by_calls lib quantize n hf =
     first_raised
       [tokenizer_raises lib (source_of lib n hf),
        model_raises lib (source_of lib n hf),
        trace_raises lib n Encoder,
        ct_convert_raises lib n encoder_inputs (if quantize = ''float16'' then FLOAT16 else FLOAT32),
        trace_raises lib n Decoder,
        ct_convert_raises lib n (decoder_inputs (hidden_width lib (source_of lib n hf)))
          (if quantize = ''float16'' then FLOAT16 else FLOAT32)]"

definition verdict_for :: "opus_lib \<Rightarrow> string \<Rightarrow> string \<Rightarrow> opus_line" where
  "verdict_for lib quantize n =
     (case map_of OPUS_MODELS n of
        None \<Rightarrow> FailedToConvert n ''KeyError''
      | Some hf \<Rightarrow>
          (case raised_by_calls lib quantize n hf of
             None \<Rightarrow> ConvertedOk n
           | Some err \<Rightarrow> FailedToConvert n err))"

text \<open>The four files a converted model leaves in the output directory.\<close>

definition package_files :: "string \<Rightarrow> string \<Rightarrow> string list" where
  "package_files output n =
     [output @ ''/'' @ model_output_name n @ ''_encoder.mlpackage'',
      output @ ''/'' @ model_output_name n @ ''_decoder.mlpackage'',
      output @ ''/'' @ model_output_name n @ ''_config.json'',
      output @ ''/'' @ model_output_name n @ ''_vocab.json'']"

section \<open>The validation tool: \<^verbatim>\<open>test_conversion.py\<close>\<close>













section \<open>Vocabulary for the properties of the registry\<close>

text \<open>
  The shape the registry document is documented to have: an object whose
  \<^verbatim>\<open>models\<close> is a list of objects that each carry a string \<^verbatim>\<open>id\<close>. A file that is
  missing from its directory, or that \<^verbatim>\<open>json.load\<close> rejects, counts, since it is read as
  the empty registry.
\<close>

definition well_formed :: "disk \<Rightarrow> bool" where
  "well_formed d =
     (case d of
        Valid (JObj kvs) \<Rightarrow>
          (case map_of kvs ''models'' of
             Some (JArr ms) \<Rightarrow> list_all (\<lambda>m. entry_id m \<noteq> None) ms
           | _ \<Rightarrow> False)
      | Valid _ \<Rightarrow> False
      | NoFile \<Rightarrow> True
      | BadJSON \<Rightarrow> True
      | _ \<Rightarrow> False)"

text \<open>The position of the first entry with a given id (the length of the list if there is none).\<close>

definition first_index :: "string \<Rightarrow> json list \<Rightarrow> nat" where
  "first_index i ms = length (takeWhile (\<lambda>m. entry_id m \<noteq> Some i) ms)"

definition with_id :: "string \<Rightarrow> json list \<Rightarrow> json list" where
  "with_id i ms = filter (\<lambda>m. entry_id m = Some i) ms"

section \<open>Properties of the registry\<close>

subsection \<open>Dictionaries and the scan\<close>

lemma map_of_dict_set: "map_of (dict_set k v kvs) k' = (if k' = k then Some v else map_of kvs k')"
  by (induction kvs) auto

lemma dict_set_same: "map_of kvs k = Some v \<Longrightarrow> dict_set k v kvs = kvs"
  by (induction kvs) (auto split: if_splits)

lemma dict_set_twice: "dict_set k v2 (dict_set k v1 kvs) = dict_set k v2 kvs"
  by (induction kvs) auto

lemma entry_id_getitem: "entry_id m = Some s \<Longrightarrow> py_getitem m ''id'' = Inr (JStr s)"
  by (auto simp: entry_id_def split: sum.splits json.splits)

lemma find_existing_ids:
  assumes "list_all (\<lambda>m. entry_id m \<noteq> None) ms" and "entry_id e = Some i"
  shows "find_existing ms e n =
           Inr (if with_id i ms = [] then - 1 else int (n + first_index i ms))"
  using assms(1)
proof (induction ms arbitrary: n)
  case Nil
  then show ?case by (simp add: with_id_def)
next
  case (Cons m ms)
  then obtain s where s: "entry_id m = Some s" by auto
  from Cons have rest: "list_all (\<lambda>m. entry_id m \<noteq> None) ms" by simp
  show ?case
    using Cons.IH [OF rest, of "Suc n"] entry_id_getitem [OF s] entry_id_getitem [OF assms(2)] s
    by (simp add: with_id_def first_index_def)
qed

lemma first_index_less: "with_id i ms \<noteq> [] \<Longrightarrow> first_index i ms < length ms"
  by (induction ms) (auto simp: with_id_def first_index_def split: if_splits)

lemma first_index_hit: "with_id i ms \<noteq> [] \<Longrightarrow> entry_id (ms ! first_index i ms) = Some i"
  by (induction ms) (auto simp: with_id_def first_index_def split: if_splits)

lemma before_first_index: "j < first_index i ms \<Longrightarrow> entry_id (ms ! j) \<noteq> Some i"
  unfolding first_index_def by (metis (mono_tags, lifting) nth_mem set_takeWhileD takeWhile_nth)

lemma ids_after_replace:
  "entry_id e = Some i \<Longrightarrow> with_id i ms \<noteq> [] \<Longrightarrow>
     map entry_id (ms[first_index i ms := e]) = map entry_id ms"
  by (induction ms) (auto simp: with_id_def first_index_def split: if_splits)

lemma with_id_after_replace:
  "entry_id e = Some i \<Longrightarrow> with_id i ms \<noteq> [] \<Longrightarrow>
     with_id i (ms[first_index i ms := e]) = e # tl (with_id i ms)"
  by (induction ms) (auto simp: with_id_def first_index_def split: if_splits)

lemma with_id_after_append:
  "entry_id e = Some i \<Longrightarrow> with_id i (ms @ [e]) = with_id i ms @ [e]"
  by (simp add: with_id_def)

lemma with_id_empty_iff: "with_id i ms = [] \<longleftrightarrow> Some i \<notin> set (map entry_id ms)"
  by (induction ms) (auto simp: with_id_def)

lemma update_registry_well_formed:
  assumes "map_of kvs ''models'' = Some (JArr ms)"
    and "list_all (\<lambda>m. entry_id m \<noteq> None) ms" and "entry_id e = Some i"
  shows "update_registry e today (Valid (JObj kvs)) =
           Inr (Valid (JObj (dict_set ''lastUpdated'' (JStr today)
                  (dict_set ''models''
                     (JArr (if with_id i ms = [] then ms @ [e] else ms[first_index i ms := e])) kvs))))"
  using assms(1) find_existing_ids [OF assms(2,3), of 0] first_index_less [of i ms]
  by (simp add: update_registry_def)


lemma list_all_update: "list_all P ms \<Longrightarrow> P e \<Longrightarrow> list_all P (ms[k := e])"
  unfolding list_all_iff using set_update_subset_insert [of ms k e] by auto

lemma registry_models_Valid:
  "map_of kvs ''models'' = Some (JArr ms) \<Longrightarrow> registry_models (Valid (JObj kvs)) = ms"
  by (simp add: registry_models_def)

lemma well_formed_Valid:
  "map_of kvs ''models'' = Some (JArr ms) \<Longrightarrow>
     well_formed (Valid (JObj kvs)) = list_all (\<lambda>m. entry_id m \<noteq> None) ms"
  by (simp add: well_formed_def)

lemma well_formedE:
  assumes "well_formed d"
  obtains "d = NoFile" | "d = BadJSON"
  | kvs ms where "d = Valid (JObj kvs)" and "map_of kvs ''models'' = Some (JArr ms)"
      and "list_all (\<lambda>m. entry_id m \<noteq> None) ms"
  using assms
  by (auto simp: well_formed_def split: disk.splits json.splits option.splits)

lemma update_registry_empty:
  "d = NoFile \<or> d = BadJSON \<Longrightarrow>
     update_registry e today d =
       Inr (Valid (JObj [(''models'', JArr [e]), (''lastUpdated'', JStr today)]))"
  by (auto simp: update_registry_def empty_registry_def)

lemma upsert_result:
  assumes "well_formed d" and "entry_id e = Some i"
  shows "\<exists>d'. update_registry e today d = Inr d' \<and> well_formed d' \<and>
           list_all (\<lambda>m. entry_id m \<noteq> None) (registry_models d) \<and>
           registry_models d' =
             (if with_id i (registry_models d) = [] then registry_models d @ [e]
              else (registry_models d)[first_index i (registry_models d) := e])"
  using assms(1)
proof (cases rule: well_formedE)
  case 1
  then show ?thesis
    using update_registry_empty [of d e today] assms(2)
    by (simp add: registry_models_def well_formed_def with_id_def)
next
  case 2
  then show ?thesis
    using update_registry_empty [of d e today] assms(2)
    by (simp add: registry_models_def well_formed_def with_id_def)
next
  case (3 kvs ms)
  define ms' where "ms' = (if with_id i ms = [] then ms @ [e] else ms[first_index i ms := e])"
  define kvs' where
    "kvs' = dict_set ''lastUpdated'' (JStr today) (dict_set ''models'' (JArr ms') kvs)"
  have run: "update_registry e today d = Inr (Valid (JObj kvs'))"
    using update_registry_well_formed [OF 3(2) 3(3) assms(2)] 3(1)
    by (simp add: kvs'_def ms'_def)
  have look: "map_of kvs' ''models'' = Some (JArr ms')"
    by (simp add: kvs'_def map_of_dict_set)
  have all: "list_all (\<lambda>m. entry_id m \<noteq> None) ms'"
    using 3(3) assms(2) by (simp add: ms'_def list_all_update)
  have wf: "well_formed (Valid (JObj kvs'))"
    using well_formed_Valid [OF look] all by simp
  have new: "registry_models (Valid (JObj kvs')) = ms'"
    by (rule registry_models_Valid [OF look])
  have old: "registry_models d = ms"
    using registry_models_Valid [OF 3(2)] 3(1) by simp
  show ?thesis
    using run wf new old 3(3) by (simp add: ms'_def)
qed


lemma distinct_ids_at_most_one:
  "distinct (map entry_id ms) \<Longrightarrow> length (with_id i ms) \<le> 1"
proof (induction ms)
  case Nil
  then show ?case by (simp add: with_id_def)
next
  case (Cons m ms)
  then show ?case
    using with_id_empty_iff [of i ms] by (auto simp: with_id_def)
qed

lemma find_existing_range:
  "find_existing ms e n = Inr r \<Longrightarrow> r = - 1 \<or> (int n \<le> r \<and> r < int n + int (length ms))"
proof (induction ms arbitrary: n)
  case Nil
  then show ?case by simp
next
  case (Cons m ms)
  then show ?case
    by (fastforce split: sum.splits if_splits)
qed

lemma find_existing_after_append:
  assumes "py_getitem e ''id'' = Inr v" and "py_eq v v"
  shows "find_existing ms e n = Inr (- 1) \<Longrightarrow>
           find_existing (ms @ [e]) e n = Inr (int (n + length ms))"
proof (induction ms arbitrary: n)
  case Nil
  then show ?case using assms by simp
next
  case (Cons m ms)
  then show ?case
    by (auto split: sum.splits if_splits)
qed

lemma find_existing_after_replace:
  assumes "py_getitem e ''id'' = Inr v" and "py_eq v v"
  shows "find_existing ms e n = Inr (int (n + k)) \<Longrightarrow>
           find_existing (ms[k := e]) e n = Inr (int (n + k))"
proof (induction ms arbitrary: n k)
  case Nil
  then show ?case by simp
next
  case (Cons m ms)
  show ?case
  proof (cases k)
    case 0
    then show ?thesis using assms by simp
  next
    case (Suc k')
    from Cons.prems Suc obtain a b where a: "py_getitem m ''id'' = Inr a"
      and b: "py_getitem e ''id'' = Inr b" and neq: "\<not> py_eq a b"
      and rest: "find_existing ms e (Suc n) = Inr (int (Suc n + k'))"
      by (auto split: sum.splits if_splits)
    from Cons.IH [OF rest] a b neq Suc show ?thesis by simp
  qed
qed

lemma write_registry_in_directory: "d \<noteq> NoDir \<Longrightarrow> write_registry d doc = Inr (Valid doc)"
  by (cases d) simp_all

lemma update_registry_on_list:
  assumes "load_registry d = Inr (JObj kvs)" and "d \<noteq> NoDir"
    and "map_of kvs ''models'' = Some (JArr xs)"
    and "find_existing xs e 0 = Inr idx"
  shows "update_registry e today d =
           (if idx \<ge> 0
            then (if idx < int (length xs)
                  then Inr (Valid (JObj (dict_set ''lastUpdated'' (JStr today)
                         (dict_set ''models'' (JArr (xs[nat idx := e])) kvs))))
                  else Inl IndexError)
            else Inr (Valid (JObj (dict_set ''lastUpdated'' (JStr today)
                         (dict_set ''models'' (JArr (xs @ [e])) kvs)))))"
  using assms by (simp add: update_registry_def write_registry_in_directory)

lemma update_registry_needs_directory: "update_registry e today NoDir = Inl FileNotFoundError"
  by (simp add: update_registry_def empty_registry_def)

lemma update_registry_returns:
  assumes "update_registry e today d = Inr d1"
  obtains kvs xs idx where "load_registry d = Inr (JObj kvs)" and "d \<noteq> NoDir"
    and "map_of kvs ''models'' = Some (JArr xs)"
    and "find_existing xs e 0 = Inr idx"
proof (cases "load_registry d")
  case (Inl err)
  with assms show ?thesis by (simp add: update_registry_def)
next
  case (Inr registry)
  have dir: "d \<noteq> NoDir"
    using assms update_registry_needs_directory [of e today] by auto
  show ?thesis
  proof (cases registry)
    case (JObj kvs)
    note reg = Inr [unfolded JObj]
    show ?thesis
    proof (cases "map_of kvs ''models''")
      case None
      with reg assms show ?thesis by (simp add: update_registry_def)
    next
      case (Some models)
      show ?thesis
      proof (cases models)
        case (JArr xs)
        show ?thesis
        proof (cases "find_existing xs e 0")
          case (Inl err)
          with reg Some JArr assms show ?thesis by (simp add: update_registry_def)
        next
          case scan: (Inr idx)
          with reg Some JArr dir that show ?thesis by simp
        qed
      next
        case (JStr s)
        with reg Some assms show ?thesis
          by (cases s) (auto simp: update_registry_def split: sum.splits if_splits)
      next
        case (JObj kws)
        with reg Some assms show ?thesis
          by (cases kws) (auto simp: update_registry_def split: sum.splits if_splits)
      qed (use reg Some assms in \<open>simp_all add: update_registry_def\<close>)
    qed
  qed (use Inr assms in \<open>simp_all add: update_registry_def\<close>)
qed

subsection \<open>A missing or corrupt registry file\<close>




subsection \<open>Replace in place, or append\<close>

text \<open>
  C1. On a registry of the documented shape, \<^verbatim>\<open>update_registry\<close> with an entry \<open>e\<close>
  whose id is \<open>i\<close> returns. If no entry has id \<open>i\<close>, \<open>e\<close> is appended at the end. Otherwise
  the first entry with id \<open>i\<close> (none before it has that id) is replaced by \<open>e\<close> at its
  position, every other entry stays where it was, and the list of ids is the same as
  before. So a registry with exactly one entry of id \<open>i\<close> (\<^verbatim>\<open>"en-es"\<close>) ends with exactly
  one, which is \<open>e\<close> itself (and so has the version of \<open>e\<close>, \<^verbatim>\<open>"2.0.0"\<close>), and ids that
  were pairwise different stay so: no id appears twice.
\<close>

theorem upsert_replaces_in_place_or_appends:
  assumes "well_formed d" and "entry_id e = Some i"
  shows "\<exists>d'. update_registry e today d = Inr d' \<and> well_formed d' \<and>
           (if with_id i (registry_models d) = []
            then registry_models d' = registry_models d @ [e]
            else first_index i (registry_models d) < length (registry_models d) \<and>
                 entry_id (registry_models d ! first_index i (registry_models d)) = Some i \<and>
                 (\<forall>j < first_index i (registry_models d). entry_id (registry_models d ! j) \<noteq> Some i) \<and>
                 registry_models d' = (registry_models d)[first_index i (registry_models d) := e] \<and>
                 map entry_id (registry_models d') = map entry_id (registry_models d)) \<and>
           (length (with_id i (registry_models d)) = 1 \<longrightarrow> with_id i (registry_models d') = [e]) \<and>
           (distinct (map entry_id (registry_models d)) \<longrightarrow> distinct (map entry_id (registry_models d')))"
proof -
  let ?ms = "registry_models d"
  obtain d' where run: "update_registry e today d = Inr d'" and wf: "well_formed d'"
    and ms': "registry_models d' =
                (if with_id i ?ms = [] then ?ms @ [e] else ?ms[first_index i ?ms := e])"
    using upsert_result [OF assms] by blast
  have shape: "if with_id i ?ms = []
            then registry_models d' = ?ms @ [e]
            else first_index i ?ms < length ?ms \<and>
                 entry_id (?ms ! first_index i ?ms) = Some i \<and>
                 (\<forall>j < first_index i ?ms. entry_id (?ms ! j) \<noteq> Some i) \<and>
                 registry_models d' = ?ms[first_index i ?ms := e] \<and>
                 map entry_id (registry_models d') = map entry_id ?ms"
    using ms' first_index_less [of i ?ms] first_index_hit [of i ?ms]
      before_first_index [of _ i ?ms] ids_after_replace [OF assms(2), of ?ms]
    by auto
  have one: "length (with_id i ?ms) = 1 \<longrightarrow> with_id i (registry_models d') = [e]"
  proof
    assume len: "length (with_id i ?ms) = 1"
    then have ne: "with_id i ?ms \<noteq> []" by auto
    from len have "tl (with_id i ?ms) = []" by (cases "with_id i ?ms") auto
    then show "with_id i (registry_models d') = [e]"
      using ms' ne with_id_after_replace [OF assms(2) ne] by simp
  qed
  have dist: "distinct (map entry_id ?ms) \<longrightarrow> distinct (map entry_id (registry_models d'))"
  proof (cases "with_id i ?ms = []")
    case True
    then show ?thesis
      using ms' assms(2) with_id_empty_iff [of i ?ms] by simp
  next
    case False
    then show ?thesis
      using ms' ids_after_replace [OF assms(2) False] by simp
  qed
  show ?thesis using run wf shape one dist by blast
qed

theorem upsert_replaces_in_place_or_appends_witness:
  "well_formed (Valid (JObj [(''models'', JArr [JObj [(''id'', JStr ''es-en''), (''version'', JStr ''1.0.0'')],
                                               JObj [(''id'', JStr ''en-es''), (''version'', JStr ''1.0.0'')]]),
                             (''lastUpdated'', JStr ''2026-01-01'')])) \<and>
   entry_id (JObj [(''id'', JStr ''en-es''), (''version'', JStr ''2.0.0'')]) = Some ''en-es'' \<and>
   py_getitem (JObj [(''id'', JStr ''en-es''), (''version'', JStr ''2.0.0'')]) ''version'' = Inr (JStr ''2.0.0'') \<and>
   (\<exists>d'. update_registry (JObj [(''id'', JStr ''en-es''), (''version'', JStr ''2.0.0'')]) ''2026-11-03''
           (Valid (JObj [(''models'', JArr [JObj [(''id'', JStr ''es-en''), (''version'', JStr ''1.0.0'')],
                                           JObj [(''id'', JStr ''en-es''), (''version'', JStr ''1.0.0'')]]),
                         (''lastUpdated'', JStr ''2026-01-01'')])) = Inr d' \<and>
         registry_models d' =
           [JObj [(''id'', JStr ''es-en''), (''version'', JStr ''1.0.0'')],
            JObj [(''id'', JStr ''en-es''), (''version'', JStr ''2.0.0'')]] \<and>
         with_id ''en-es'' (registry_models d') = [JObj [(''id'', JStr ''en-es''), (''version'', JStr ''2.0.0'')]] \<and>
         distinct (map entry_id (registry_models d'))) \<and>
   (\<exists>d'. update_registry (JObj [(''id'', JStr ''en-fr'')]) ''2026-11-03''
           (Valid (JObj [(''models'', JArr [JObj [(''id'', JStr ''es-en''), (''version'', JStr ''1.0.0'')],
                                           JObj [(''id'', JStr ''en-es''), (''version'', JStr ''1.0.0'')]]),
                         (''lastUpdated'', JStr ''2026-01-01'')])) = Inr d' \<and>
         registry_models d' =
           [JObj [(''id'', JStr ''es-en''), (''version'', JStr ''1.0.0'')],
            JObj [(''id'', JStr ''en-es''), (''version'', JStr ''1.0.0'')],
            JObj [(''id'', JStr ''en-fr'')]])"
proof -
  let ?old = "JObj [(''id'', JStr ''en-es''), (''version'', JStr ''1.0.0'')]"
  let ?other = "JObj [(''id'', JStr ''es-en''), (''version'', JStr ''1.0.0'')]"
  let ?e = "JObj [(''id'', JStr ''en-es''), (''version'', JStr ''2.0.0'')]"
  let ?f = "JObj [(''id'', JStr ''en-fr'')]"
  let ?d = "Valid (JObj [(''models'', JArr [?other, ?old]), (''lastUpdated'', JStr ''2026-01-01'')])"
  have wf: "well_formed ?d"
    by (simp add: well_formed_def entry_id_def)
  have ms: "registry_models ?d = [?other, ?old]"
    by (simp add: registry_models_def)
  have ide: "entry_id ?e = Some ''en-es''" and idf: "entry_id ?f = Some ''en-fr''"
    by (simp_all add: entry_id_def)
  have ids: "entry_id ?other = Some ''es-en''" "entry_id ?old = Some ''en-es''"
    by (simp_all add: entry_id_def)
  have present: "with_id ''en-es'' [?other, ?old] = [?old]" "first_index ''en-es'' [?other, ?old] = 1"
    and absent: "with_id ''en-fr'' [?other, ?old] = []"
    by (simp_all add: with_id_def first_index_def ids)
  have replaced: "\<exists>d'. update_registry ?e ''2026-11-03'' ?d = Inr d' \<and>
      registry_models d' = [?other, ?e] \<and> with_id ''en-es'' (registry_models d') = [?e] \<and>
      distinct (map entry_id (registry_models d'))"
    using upsert_replaces_in_place_or_appends [OF wf ide, of "''2026-11-03''"]
    by (auto simp: ms present ids ide)
  have appended: "\<exists>d'. update_registry ?f ''2026-11-03'' ?d = Inr d' \<and>
      registry_models d' = [?other, ?old, ?f]"
    using upsert_replaces_in_place_or_appends [OF wf idf, of "''2026-11-03''"]
    by (auto simp: ms absent)
  show ?thesis
    using wf ide replaced appended by simp
qed

subsection \<open>Applying the same entry twice\<close>

text \<open>
  C2. Let \<open>e\<close> be an entry with an id (one that \<^verbatim>\<open>==\<close> finds equal to itself, as every
  string is), and let \<^verbatim>\<open>update_registry\<close> with \<open>e\<close> return on some registry file,
  whatever it held. Then a second call with the same \<open>e\<close> returns too, and the document
  it writes is the first one with \<^verbatim>\<open>lastUpdated\<close> set again: the \<^verbatim>\<open>models\<close> list is
  the same list, of the same length, and holds \<open>e\<close>; on the same day the two documents are
  equal.
\<close>

theorem upsert_twice_same_models:
  assumes "py_getitem e ''id'' = Inr v" and "py_eq v v"
    and "update_registry e t1 d = Inr d1"
  shows "\<exists>doc1 doc2. d1 = Valid doc1 \<and> update_registry e t2 d1 = Inr (Valid doc2) \<and>
           py_setitem doc1 ''lastUpdated'' (JStr t2) = Inr doc2 \<and>
           registry_models (Valid doc2) = registry_models d1 \<and>
           length (registry_models (Valid doc2)) = length (registry_models d1) \<and>
           e \<in> set (registry_models d1) \<and>
           (t2 = t1 \<longrightarrow> doc2 = doc1)"
proof -
  from assms(3) obtain kvs xs idx where reg: "load_registry d = Inr (JObj kvs)"
    and dir: "d \<noteq> NoDir"
    and models: "map_of kvs ''models'' = Some (JArr xs)"
    and scan: "find_existing xs e 0 = Inr idx"
    by (rule update_registry_returns)
  define k where "k = (if idx \<ge> 0 then nat idx else length xs)"
  define xs' where "xs' = (if idx \<ge> 0 then xs[nat idx := e] else xs @ [e])"
  define kvs1 where
    "kvs1 = dict_set ''lastUpdated'' (JStr t1) (dict_set ''models'' (JArr xs') kvs)"
  have range: "idx = - 1 \<or> (0 \<le> idx \<and> idx < int (length xs))"
    using find_existing_range [OF scan] by simp
  have d1: "d1 = Valid (JObj kvs1)"
    using assms(3) update_registry_on_list [OF reg dir models scan, of t1] range
    by (auto simp: kvs1_def xs'_def)
  have look: "map_of kvs1 ''models'' = Some (JArr xs')"
    by (simp add: kvs1_def map_of_dict_set)
  have k: "k < length xs'" and at_k: "xs'[k := e] = xs'" and mem: "e \<in> set xs'"
    using range by (auto simp: k_def xs'_def set_update_memI)
  have scan': "find_existing xs' e 0 = Inr (int k)"
  proof (cases "idx \<ge> 0")
    case True
    then have "find_existing xs e 0 = Inr (int (0 + nat idx))" using scan by simp
    from find_existing_after_replace [OF assms(1,2) this] True
    show ?thesis by (simp add: k_def xs'_def)
  next
    case False
    then have "find_existing xs e 0 = Inr (- 1)" using scan range by auto
    from find_existing_after_append [OF assms(1,2) this] False
    show ?thesis by (simp add: k_def xs'_def)
  qed
  have again: "update_registry e t2 d1 =
                 Inr (Valid (JObj (dict_set ''lastUpdated'' (JStr t2) kvs1)))"
    using update_registry_on_list [of d1 kvs1 xs' e "int k" t2] look scan' k at_k d1
    by (simp add: dict_set_same)
  have look2: "map_of (dict_set ''lastUpdated'' (JStr t2) kvs1) ''models'' = Some (JArr xs')"
    using look by (simp add: map_of_dict_set)
  have same_day: "dict_set ''lastUpdated'' (JStr t1) kvs1 = kvs1"
    by (simp add: kvs1_def dict_set_twice)
  show ?thesis
    using d1 again mem same_day registry_models_Valid [OF look] registry_models_Valid [OF look2]
    by auto
qed

theorem upsert_twice_same_models_witness:
  "py_getitem (JObj [(''id'', JStr ''en-es''), (''version'', JStr ''2.0.0'')]) ''id'' = Inr (JStr ''en-es'') \<and>
   py_eq (JStr ''en-es'') (JStr ''en-es'') \<and>
   update_registry (JObj [(''id'', JStr ''en-es''), (''version'', JStr ''2.0.0'')]) ''2026-11-03''
       (Valid (JObj [(''models'', JArr [JObj [(''id'', JStr ''es-en'')]]), (''lastUpdated'', JStr ''2026-01-01'')])) =
     Inr (Valid (JObj [(''models'', JArr [JObj [(''id'', JStr ''es-en'')],
                                         JObj [(''id'', JStr ''en-es''), (''version'', JStr ''2.0.0'')]]),
                       (''lastUpdated'', JStr ''2026-11-03'')])) \<and>
   update_registry (JObj [(''id'', JStr ''en-es''), (''version'', JStr ''2.0.0'')]) ''2026-11-04''
       (Valid (JObj [(''models'', JArr [JObj [(''id'', JStr ''es-en'')],
                                       JObj [(''id'', JStr ''en-es''), (''version'', JStr ''2.0.0'')]]),
                     (''lastUpdated'', JStr ''2026-11-03'')])) =
     Inr (Valid (JObj [(''models'', JArr [JObj [(''id'', JStr ''es-en'')],
                                         JObj [(''id'', JStr ''en-es''), (''version'', JStr ''2.0.0'')]]),
                       (''lastUpdated'', JStr ''2026-11-04'')]))"
proof -
  let ?e = "JObj [(''id'', JStr ''en-es''), (''version'', JStr ''2.0.0'')]"
  let ?d = "Valid (JObj [(''models'', JArr [JObj [(''id'', JStr ''es-en'')]]),
                         (''lastUpdated'', JStr ''2026-01-01'')])"
  let ?d1 = "Valid (JObj [(''models'', JArr [JObj [(''id'', JStr ''es-en'')], ?e]),
                          (''lastUpdated'', JStr ''2026-11-03'')])"
  have id: "py_getitem ?e ''id'' = Inr (JStr ''en-es'')" by simp
  have refl: "py_eq (JStr ''en-es'') (JStr ''en-es'')" by simp
  have first: "update_registry ?e ''2026-11-03'' ?d = Inr ?d1"
    by (simp add: update_registry_def)
  from upsert_twice_same_models [OF id refl first, of "''2026-11-04''"]
  have "update_registry ?e ''2026-11-04'' ?d1 =
          Inr (Valid (JObj [(''models'', JArr [JObj [(''id'', JStr ''es-en'')], ?e]),
                            (''lastUpdated'', JStr ''2026-11-04'')]))"
    by auto
  with id refl first show ?thesis by simp
qed

subsection \<open>Duplicates that were already there\<close>

text \<open>
  C10. If the loaded registry already holds two or more entries with the id of \<open>e\<close>,
  \<^verbatim>\<open>update_registry\<close> replaces the first of them only: every other position of the list
  keeps its entry, the later entries with that id are still there, and the written
  list still holds the id at least twice. One call does not restore one entry per id.
\<close>

theorem upsert_leaves_later_duplicates:
  assumes "well_formed d" and "entry_id e = Some i"
    and "2 \<le> length (with_id i (registry_models d))"
  shows "\<exists>d'. update_registry e today d = Inr d' \<and>
           registry_models d' = (registry_models d)[first_index i (registry_models d) := e] \<and>
           (\<forall>j < length (registry_models d).
              j \<noteq> first_index i (registry_models d) \<longrightarrow> registry_models d' ! j = registry_models d ! j) \<and>
           with_id i (registry_models d') = e # tl (with_id i (registry_models d)) \<and>
           2 \<le> length (with_id i (registry_models d')) \<and>
           \<not> distinct (map entry_id (registry_models d'))"
proof -
  let ?ms = "registry_models d"
  from assms(3) have ne: "with_id i ?ms \<noteq> []" by auto
  obtain d' where run: "update_registry e today d = Inr d'"
    and ms': "registry_models d' = ?ms[first_index i ?ms := e]"
    using upsert_result [OF assms(1,2), of today] ne by auto
  have kept: "with_id i (registry_models d') = e # tl (with_id i ?ms)"
    using ms' with_id_after_replace [OF assms(2) ne] by simp
  then have two: "2 \<le> length (with_id i (registry_models d'))"
    using assms(3) by simp
  then have dup: "\<not> distinct (map entry_id (registry_models d'))"
    using distinct_ids_at_most_one [of "registry_models d'" i] by auto
  show ?thesis
    using run ms' kept two dup by simp
qed

theorem upsert_leaves_later_duplicates_witness:
  "well_formed (Valid (JObj [(''models'', JArr [JObj [(''id'', JStr ''en-es''), (''version'', JStr ''1.0.0'')],
                                               JObj [(''id'', JStr ''es-en'')],
                                               JObj [(''id'', JStr ''en-es''), (''version'', JStr ''1.1.0'')]]),
                             (''lastUpdated'', JStr ''2026-01-01'')])) \<and>
   entry_id (JObj [(''id'', JStr ''en-es''), (''version'', JStr ''2.0.0'')]) = Some ''en-es'' \<and>
   (\<exists>d'. update_registry (JObj [(''id'', JStr ''en-es''), (''version'', JStr ''2.0.0'')]) ''2026-11-03''
           (Valid (JObj [(''models'', JArr [JObj [(''id'', JStr ''en-es''), (''version'', JStr ''1.0.0'')],
                                           JObj [(''id'', JStr ''es-en'')],
                                           JObj [(''id'', JStr ''en-es''), (''version'', JStr ''1.1.0'')]]),
                         (''lastUpdated'', JStr ''2026-01-01'')])) = Inr d' \<and>
         registry_models d' =
           [JObj [(''id'', JStr ''en-es''), (''version'', JStr ''2.0.0'')],
            JObj [(''id'', JStr ''es-en'')],
            JObj [(''id'', JStr ''en-es''), (''version'', JStr ''1.1.0'')]] \<and>
         \<not> distinct (map entry_id (registry_models d')))"
proof -
  let ?a = "JObj [(''id'', JStr ''en-es''), (''version'', JStr ''1.0.0'')]"
  let ?b = "JObj [(''id'', JStr ''es-en'')]"
  let ?c = "JObj [(''id'', JStr ''en-es''), (''version'', JStr ''1.1.0'')]"
  let ?e = "JObj [(''id'', JStr ''en-es''), (''version'', JStr ''2.0.0'')]"
  let ?d = "Valid (JObj [(''models'', JArr [?a, ?b, ?c]), (''lastUpdated'', JStr ''2026-01-01'')])"
  have wf: "well_formed ?d"
    by (simp add: well_formed_def entry_id_def)
  have ms: "registry_models ?d = [?a, ?b, ?c]"
    by (simp add: registry_models_def)
  have ide: "entry_id ?e = Some ''en-es''"
    by (simp add: entry_id_def)
  have ids: "entry_id ?a = Some ''en-es''" "entry_id ?b = Some ''es-en''" "entry_id ?c = Some ''en-es''"
    by (simp_all add: entry_id_def)
  have two: "2 \<le> length (with_id ''en-es'' (registry_models ?d))"
    and first: "first_index ''en-es'' [?a, ?b, ?c] = 0"
    by (simp_all add: ms with_id_def first_index_def ids)
  have "\<exists>d'. update_registry ?e ''2026-11-03'' ?d = Inr d' \<and>
          registry_models d' = [?e, ?b, ?c] \<and> \<not> distinct (map entry_id (registry_models d'))"
    using upsert_leaves_later_duplicates [OF wf ide two, of "''2026-11-03''"]
    by (auto simp: ms first)
  with wf ide show ?thesis by simp
qed

section \<open>Properties of the declared shapes\<close>

lemma input_shape_bounds: "input_shape L = [Fixed 1, RangeDim 1 L (Some 128)]"
  by (simp add: input_shape_def)

lemma input_shape_default_within_bounds_iff:
  "default_within_bounds (input_shape L ! 1) \<longleftrightarrow> 128 \<le> L"
  by (simp add: input_shape_def)

text \<open>
  C5. The shape built for the two token tensors is \<open>[1, range]\<close> with lower bound 1 and
  upper bound \<open>L\<close>, but its declared default is the constant 128 whatever \<open>L\<close> is. For the
  maximum length 64 the default 128 is above the upper bound, so it does not lie within
  \<open>[1, L]\<close>.
\<close>

theorem input_shape_default_above_small_bound:
  "input_shape 64 = [Fixed 1, RangeDim 1 64 (Some 128)] \<and>
   map tt_shape (gemma_inputs 64) = [input_shape 64, input_shape 64] \<and>
   \<not> default_within_bounds (input_shape 64 ! 1)"
  by (simp add: input_shape_def gemma_inputs_def)

text \<open>
  C6, as the claim states it, fails: the decoder token ids are not declared with a
  fixed length of 1. Their sequence dimension is the range from 1 to 512.
\<close>

theorem decoder_token_ids_declared_as_range:
  "tt_name (decoder_inputs 512 ! 0) = ''decoder_input_ids'' \<and>
   tt_shape (decoder_inputs 512 ! 0) = [Fixed 1, RangeDim 1 512 None] \<and>
   tt_shape (decoder_inputs 512 ! 0) \<noteq> [Fixed 1, Fixed 1]"
  by (simp add: decoder_inputs_def)

text \<open>
  C6, amended. The decoder package declares three inputs: the decoder token ids with a
  sequence dimension ranging over [1, 512] (only the example tensor the decoder is traced
  with has length 1), the encoder hidden states with the same range [1, 512] as the
  encoder's sequence dimension followed by a fixed dimension equal to the hidden width,
  and the encoder attention mask with the range [1, 512].
\<close>

theorem decoder_declared_inputs:
  "map tt_name (decoder_inputs d_model) =
     [''decoder_input_ids'', ''encoder_hidden_states'', ''encoder_attention_mask''] \<and>
   map tt_shape (decoder_inputs d_model) =
     [[Fixed 1, RangeDim 1 512 None],
      [Fixed 1, RangeDim 1 512 None, Fixed d_model],
      [Fixed 1, RangeDim 1 512 None]] \<and>
   map tt_shape encoder_inputs = [[Fixed 1, RangeDim 1 512 None], [Fixed 1, RangeDim 1 512 None]] \<and>
   tt_shape (decoder_inputs d_model ! 1) ! 1 = tt_shape (encoder_inputs ! 0) ! 1 \<and>
   hd (decoder_trace_shapes 512 d_model) = [1, 1]"
  by (simp add: decoder_inputs_def encoder_inputs_def decoder_trace_shapes_def)

section \<open>Properties of the causal-model converter\<close>

text \<open>
  C7, as the claim states it, fails: when the quantization pass raises, no package has
  been saved. The one \<^verbatim>\<open>save\<close> of \<^verbatim>\<open>convert_to_coreml\<close> comes after the pass.
\<close>

theorem int8_failure_saves_nothing:
  "gemma_convert_to_coreml
     \<lparr>convert_raises = None, quantize_raises = Some ''quantization failed'', save_raises = None,
      load_raises = None, predict_raises = None\<rparr>
     512 (Some ''int8'') ''Models/Gemma3nE2B.mlpackage'' \<lparr>packages = [], events = []\<rparr> =
   (Inl ''quantization failed'',
    \<lparr>packages = [],
     events = [Print ''Converting to Core ML...'', Print ''   Using INT8 quantization'',
               CtConvert (gemma_inputs 512) FLOAT16,
               Print ''   Applying INT8 quantization...'', AffineQuantizeWeights]\<rparr>)"
  by (simp add: gemma_convert_to_coreml_def select_precision_def emit_def)

text \<open>
  C7, amended. In int8 mode \<^verbatim>\<open>convert_to_coreml\<close> first converts at half precision,
  then applies the 8-bit weight quantization as a second call on the converted model,
  and saves once, after that call: the package written is the quantized model. If the
  conversion or the quantization raises, the exception leaves the function and the
  packages on disk are the ones that were there before.
\<close>

theorem int8_quantizes_then_saves:
  "(case convert_raises lib of
      Some err \<Rightarrow>
        fst (gemma_convert_to_coreml lib L (Some ''int8'') path s) = Inl err \<and>
        packages (snd (gemma_convert_to_coreml lib L (Some ''int8'') path s)) = packages s \<and>
        lib_calls (events (snd (gemma_convert_to_coreml lib L (Some ''int8'') path s))) =
          lib_calls (events s) @ [CtConvert (gemma_inputs L) FLOAT16]
    | None \<Rightarrow>
        (case quantize_raises lib of
           Some err \<Rightarrow>
             fst (gemma_convert_to_coreml lib L (Some ''int8'') path s) = Inl err \<and>
             packages (snd (gemma_convert_to_coreml lib L (Some ''int8'') path s)) = packages s \<and>
             lib_calls (events (snd (gemma_convert_to_coreml lib L (Some ''int8'') path s))) =
               lib_calls (events s) @ [CtConvert (gemma_inputs L) FLOAT16, AffineQuantizeWeights]
         | None \<Rightarrow>
             lib_calls (events (snd (gemma_convert_to_coreml lib L (Some ''int8'') path s))) =
               lib_calls (events s) @
                 [CtConvert (gemma_inputs L) FLOAT16, AffineQuantizeWeights, Save path] \<and>
             (case save_raises lib of
                Some err \<Rightarrow>
                  fst (gemma_convert_to_coreml lib L (Some ''int8'') path s) = Inl err \<and>
                  packages (snd (gemma_convert_to_coreml lib L (Some ''int8'') path s)) = packages s
              | None \<Rightarrow>
                  (\<exists>m. fst (gemma_convert_to_coreml lib L (Some ''int8'') path s) = Inr m \<and>
                       int8_weights m \<and> ml_precision m = FLOAT16 \<and>
                       map_of (packages (snd (gemma_convert_to_coreml lib L (Some ''int8'') path s))) path
                         = Some m))))"
  by (simp add: gemma_convert_to_coreml_def select_precision_def emit_def lib_calls_def Let_def
        stamp_metadata_def split: option.splits)

theorem int8_quantizes_then_saves_witness:
  "(\<exists>m. fst (gemma_convert_to_coreml
            \<lparr>convert_raises = None, quantize_raises = None, save_raises = None,
             load_raises = None, predict_raises = None\<rparr>
            512 (Some ''int8'') ''Models/Gemma3nE2B.mlpackage'' \<lparr>packages = [], events = []\<rparr>) = Inr m \<and>
        int8_weights m \<and> ml_precision m = FLOAT16 \<and>
        map_of (packages (snd (gemma_convert_to_coreml
            \<lparr>convert_raises = None, quantize_raises = None, save_raises = None,
             load_raises = None, predict_raises = None\<rparr>
            512 (Some ''int8'') ''Models/Gemma3nE2B.mlpackage'' \<lparr>packages = [], events = []\<rparr>)))
          ''Models/Gemma3nE2B.mlpackage'' = Some m) \<and>
   lib_calls (events (snd (gemma_convert_to_coreml
            \<lparr>convert_raises = None, quantize_raises = None, save_raises = None,
             load_raises = None, predict_raises = None\<rparr>
            512 (Some ''int8'') ''Models/Gemma3nE2B.mlpackage'' \<lparr>packages = [], events = []\<rparr>))) =
     [CtConvert (gemma_inputs 512) FLOAT16, AffineQuantizeWeights, Save ''Models/Gemma3nE2B.mlpackage''] \<and>
   fst (gemma_convert_to_coreml
            \<lparr>convert_raises = None, quantize_raises = Some ''quantization failed'', save_raises = None,
             load_raises = None, predict_raises = None\<rparr>
            512 (Some ''int8'') ''Models/Gemma3nE2B.mlpackage'' \<lparr>packages = [], events = []\<rparr>) =
     Inl ''quantization failed'' \<and>
   packages (snd (gemma_convert_to_coreml
            \<lparr>convert_raises = None, quantize_raises = Some ''quantization failed'', save_raises = None,
             load_raises = None, predict_raises = None\<rparr>
            512 (Some ''int8'') ''Models/Gemma3nE2B.mlpackage'' \<lparr>packages = [], events = []\<rparr>)) = []"
  using int8_quantizes_then_saves [of "\<lparr>convert_raises = None, quantize_raises = None, save_raises = None,
                  load_raises = None, predict_raises = None\<rparr>"
              512 "''Models/Gemma3nE2B.mlpackage''" "\<lparr>packages = [], events = []\<rparr>"]
        int8_quantizes_then_saves [of "\<lparr>convert_raises = None, quantize_raises = Some ''quantization failed'',
                  save_raises = None, load_raises = None, predict_raises = None\<rparr>"
              512 "''Models/Gemma3nE2B.mlpackage''" "\<lparr>packages = [], events = []\<rparr>"]
  by (simp add: lib_calls_def)

section \<open>Properties of the batch conversion\<close>

lemma verdicts_append: "verdicts (xs @ ys) = verdicts xs @ verdicts ys"
  by (simp add: verdicts_def)

lemma trace_part_cases:
  obtains err where "\<And>s. trace_part lib c p s = (Inl err, say (TracingPart p) s)"
  | d where "\<And>s. trace_part lib c p s = (Inr d, say (TracingPart p) s)"
  by (cases "loaded c"; cases "trace_raises lib (model_name c) p")
     (auto simp: trace_part_def)

lemma opus_convert_cases:
  obtains (raised) err fs ls where
      "\<And>s. opus_convert_to_coreml lib c outdir quantize s =
             (Inl err, s\<lparr>files := files s @ fs, out := out s @ ls\<rparr>)"
      "verdicts ls = []"
  | (returned) ls where
      "\<And>s. opus_convert_to_coreml lib c outdir quantize s =
             (Inr (outdir @ ''/'' @ model_output_name (model_name c) @ ''_encoder.mlpackage'',
                   outdir @ ''/'' @ model_output_name (model_name c) @ ''_decoder.mlpackage''),
              s\<lparr>files := files s @
                     [outdir @ ''/'' @ model_output_name (model_name c) @ ''_encoder.mlpackage'',
                      outdir @ ''/'' @ model_output_name (model_name c) @ ''_decoder.mlpackage'',
                      outdir @ ''/'' @ model_output_name (model_name c) @ ''_config.json'',
                      outdir @ ''/'' @ model_output_name (model_name c) @ ''_vocab.json''],
                out := out s @ ls\<rparr>)"
      "verdicts ls = []"
proof -
  define prec where "prec = (if quantize = ''float16'' then FLOAT16 else FLOAT32)"
  show ?thesis
  proof (cases rule: trace_part_cases [of lib c Encoder])
    case (1 err)
    show ?thesis
      by (rule raised [where err = err and fs = "[]" and ls = "[UsingPrecision prec, ConvertingPart Encoder, TracingPart Encoder]"])
         (simp_all add: opus_convert_to_coreml_def 1 say_def verdicts_def prec_def Let_def)
  next
    case enc: (2 d)
    show ?thesis
    proof (cases "ct_convert_raises lib (model_name c) encoder_inputs prec")
      case (Some err)
      show ?thesis
        by (rule raised [where err = err and fs = "[]" and ls = "[UsingPrecision prec, ConvertingPart Encoder, TracingPart Encoder]"])
           (use Some in \<open>simp_all add: opus_convert_to_coreml_def enc say_def verdicts_def prec_def Let_def\<close>)
    next
      case None
      note conv_enc = this
      show ?thesis
      proof (cases rule: trace_part_cases [of lib c Decoder])
        case (1 err)
        show ?thesis
          by (rule raised [where err = err and fs =
                "[outdir @ ''/'' @ model_output_name (model_name c) @ ''_encoder.mlpackage'']" and ls =
                "[UsingPrecision prec, ConvertingPart Encoder, TracingPart Encoder,
                  PartSaved Encoder (outdir @ ''/'' @ model_output_name (model_name c) @ ''_encoder.mlpackage''),
                  ConvertingPart Decoder, TracingPart Decoder]"])
             (use conv_enc in \<open>simp_all add: opus_convert_to_coreml_def enc 1 say_def write_file_def
                verdicts_def prec_def Let_def\<close>)
      next
        case dec: (2 d')
        show ?thesis
        proof (cases "ct_convert_raises lib (model_name c) (decoder_inputs d') prec")
          case (Some err)
          show ?thesis
            by (rule raised [where err = err and fs =
                  "[outdir @ ''/'' @ model_output_name (model_name c) @ ''_encoder.mlpackage'']" and ls =
                  "[UsingPrecision prec, ConvertingPart Encoder, TracingPart Encoder,
                    PartSaved Encoder (outdir @ ''/'' @ model_output_name (model_name c) @ ''_encoder.mlpackage''),
                    ConvertingPart Decoder, TracingPart Decoder]"])
               (use conv_enc Some in \<open>simp_all add: opus_convert_to_coreml_def enc dec say_def
                  write_file_def verdicts_def prec_def Let_def\<close>)
        next
          case None
          show ?thesis
            by (rule returned [where ls =
                  "[UsingPrecision prec, ConvertingPart Encoder, TracingPart Encoder,
                    PartSaved Encoder (outdir @ ''/'' @ model_output_name (model_name c) @ ''_encoder.mlpackage''),
                    ConvertingPart Decoder, TracingPart Decoder,
                    PartSaved Decoder (outdir @ ''/'' @ model_output_name (model_name c) @ ''_decoder.mlpackage''),
                    ConfigSaved (outdir @ ''/'' @ model_output_name (model_name c) @ ''_config.json'')]"])
               (use conv_enc None in \<open>simp_all add: opus_convert_to_coreml_def enc dec say_def
                  write_file_def save_tokenizer_config_def verdicts_def prec_def Let_def\<close>)
        qed
      qed
    qed
  qed
qed

lemma verdicts_simps:
  "verdicts [] = []"
  "verdicts (ModelLoaded # xs) = verdicts xs"
  "verdicts (ConvertedOk n # xs) = ConvertedOk n # verdicts xs"
  "verdicts (FailedToConvert n err # xs) = FailedToConvert n err # verdicts xs"
  by (simp_all add: verdicts_def)

lemma load_model_cases:
  obtains (raised) err l where
      "\<And>s. load_model lib c s = (Inl err, s\<lparr>out := out s @ [l]\<rparr>)"
      "\<And>xs. verdicts (l # xs) = verdicts xs"
  | (returned) w l where
      "\<And>s. load_model lib c s = (Inr (c\<lparr>loaded := Some w\<rparr>), s\<lparr>out := out s @ [l, ModelLoaded]\<rparr>)"
      "\<And>xs. verdicts (l # xs) = verdicts xs"
proof (cases "raw_model_exists lib (''raw_models/'' @ model_name c)")
  case True
  show ?thesis
  proof (cases "tokenizer_raises lib (''raw_models/'' @ model_name c)")
    case (Some err)
    show ?thesis
      by (rule raised [where err = err and l = "FoundLocal (''raw_models/'' @ model_name c)"])
         (use True Some in \<open>simp_all add: load_model_def say_def verdicts_def Let_def\<close>)
  next
    case None
    show ?thesis
    proof (cases "model_raises lib (''raw_models/'' @ model_name c)")
      case (Some err)
      show ?thesis
        by (rule raised [where err = err and l = "FoundLocal (''raw_models/'' @ model_name c)"])
           (use True None Some in \<open>simp_all add: load_model_def say_def verdicts_def Let_def\<close>)
    next
      case none: None
      show ?thesis
        by (rule returned [where l = "FoundLocal (''raw_models/'' @ model_name c)"
              and w = "hidden_width lib (''raw_models/'' @ model_name c)"])
           (use True None none in \<open>simp_all add: load_model_def say_def verdicts_def Let_def\<close>)
    qed
  qed
next
  case False
  show ?thesis
  proof (cases "tokenizer_raises lib (hf_model_id c)")
    case (Some err)
    show ?thesis
      by (rule raised [where err = err and l = "LoadingFromHub (hf_model_id c)"])
         (use False Some in \<open>simp_all add: load_model_def say_def verdicts_def Let_def\<close>)
  next
    case None
    show ?thesis
    proof (cases "model_raises lib (hf_model_id c)")
      case (Some err)
      show ?thesis
        by (rule raised [where err = err and l = "LoadingFromHub (hf_model_id c)"])
           (use False None Some in \<open>simp_all add: load_model_def say_def verdicts_def Let_def\<close>)
    next
      case none: None
      show ?thesis
        by (rule returned [where l = "LoadingFromHub (hf_model_id c)"
              and w = "hidden_width lib (hf_model_id c)"])
           (use False None none in \<open>simp_all add: load_model_def say_def verdicts_def Let_def\<close>)
    qed
  qed
qed

lemma try_convert_cases:
  obtains (failed) err fs ls where
      "\<And>s. try_convert lib c outdir quantize s =
             (Some err, s\<lparr>files := files s @ fs,
                           out := out s @ ls @ [FailedToConvert (model_name c) err]\<rparr>)"
      "verdicts ls = []"
  | (converted) ls where
      "\<And>s. try_convert lib c outdir quantize s =
             (None, s\<lparr>files := files s @ package_files outdir (model_name c),
                       out := out s @ ls @ [ConvertedOk (model_name c)]\<rparr>)"
      "verdicts ls = []"
proof (cases rule: load_model_cases [of lib c])
  case (raised err l)
  show ?thesis
    by (rule failed [where err = err and fs = "[]" and ls = "[l]"])
       (simp_all add: try_convert_def raised say_def verdicts_simps)
next
  case (returned w l)
  show ?thesis
  proof (cases rule: opus_convert_cases [of lib "c\<lparr>loaded := Some w\<rparr>" outdir quantize])
    case conv: (raised err fs ls)
    show ?thesis
      by (rule failed [where err = err and fs = fs and ls = "[l, ModelLoaded] @ ls"])
         (simp_all add: try_convert_def returned conv say_def verdicts_simps)
  next
    case conv: (returned ls)
    show ?thesis
      by (rule converted [where ls = "[l, ModelLoaded] @ ls"])
         (simp_all add: try_convert_def returned conv say_def verdicts_simps package_files_def)
  qed
qed

lemma load_model_result:
  "fst (load_model lib c s) =
     (case tokenizer_raises lib (source_of lib (model_name c) (hf_model_id c)) of
        Some err \<Rightarrow> Inl err
      | None \<Rightarrow>
          (case model_raises lib (source_of lib (model_name c) (hf_model_id c)) of
             Some err \<Rightarrow> Inl err
           | None \<Rightarrow>
               Inr (c\<lparr>loaded := Some (hidden_width lib (source_of lib (model_name c) (hf_model_id c)))\<rparr>)))"
  by (simp add: load_model_def source_of_def Let_def split: option.splits)

lemma trace_part_result:
  "loaded c = Some d \<Longrightarrow>
     trace_part lib c p s =
       ((case trace_raises lib (model_name c) p of Some err \<Rightarrow> Inl err | None \<Rightarrow> Inr d),
        say (TracingPart p) s)"
  by (simp add: trace_part_def split: option.splits)

lemma opus_convert_result:
  assumes "loaded c = Some d"
  shows "(case fst (opus_convert_to_coreml lib c outdir quantize s) of
            Inl err \<Rightarrow> Some err | Inr paths \<Rightarrow> None) =
         first_raised
           [trace_raises lib (model_name c) Encoder,
            ct_convert_raises lib (model_name c) encoder_inputs
              (if quantize = ''float16'' then FLOAT16 else FLOAT32),
            trace_raises lib (model_name c) Decoder,
            ct_convert_raises lib (model_name c) (decoder_inputs d)
              (if quantize = ''float16'' then FLOAT16 else FLOAT32)]"
proof (cases "trace_raises lib (model_name c) Encoder")
  case (Some err)
  then show ?thesis
    by (simp add: opus_convert_to_coreml_def trace_part_result [OF assms] Let_def)
next
  case enc: None
  show ?thesis
  proof (cases "ct_convert_raises lib (model_name c) encoder_inputs
                  (if quantize = ''float16'' then FLOAT16 else FLOAT32)")
    case (Some err)
    then show ?thesis
      using enc by (simp add: opus_convert_to_coreml_def trace_part_result [OF assms] Let_def)
  next
    case conv: None
    show ?thesis
    proof (cases "trace_raises lib (model_name c) Decoder")
      case (Some err)
      then show ?thesis
        using enc conv
        by (simp add: opus_convert_to_coreml_def trace_part_result [OF assms] Let_def)
    next
      case dec: None
      show ?thesis
        using enc conv dec
        by (simp add: opus_convert_to_coreml_def trace_part_result [OF assms] Let_def
              split: option.splits)
    qed
  qed
qed

lemma try_convert_raises:
  "fst (try_convert lib (new_converter n hf) outdir quantize s) = raised_by_calls lib quantize n hf"
proof (cases "tokenizer_raises lib (source_of lib n hf)")
  case (Some err)
  then show ?thesis
    using load_model_result [of lib "new_converter n hf" s]
    by (cases "load_model lib (new_converter n hf) s")
       (simp add: try_convert_def raised_by_calls_def new_converter_def)
next
  case tok: None
  show ?thesis
  proof (cases "model_raises lib (source_of lib n hf)")
    case (Some err)
    then show ?thesis
      using tok load_model_result [of lib "new_converter n hf" s]
      by (cases "load_model lib (new_converter n hf) s")
         (simp add: try_convert_def raised_by_calls_def new_converter_def)
  next
    case None
    define c' where
      "c' = (new_converter n hf)\<lparr>loaded := Some (hidden_width lib (source_of lib n hf))\<rparr>"
    have c': "loaded c' = Some (hidden_width lib (source_of lib n hf))" "model_name c' = n"
      by (simp_all add: c'_def new_converter_def)
    obtain s2 where load: "load_model lib (new_converter n hf) s = (Inr c', s2)"
      using tok None load_model_result [of lib "new_converter n hf" s]
      by (cases "load_model lib (new_converter n hf) s") (simp add: new_converter_def c'_def)
    obtain r s3 where conv: "opus_convert_to_coreml lib c' outdir quantize s2 = (r, s3)"
      by (cases "opus_convert_to_coreml lib c' outdir quantize s2")
    have "fst (try_convert lib (new_converter n hf) outdir quantize s) =
            (case r of Inl err \<Rightarrow> Some err | Inr paths \<Rightarrow> None)"
      by (cases r) (simp_all add: try_convert_def load conv)
    also have "\<dots> = raised_by_calls lib quantize n hf"
      using opus_convert_result [OF c'(1), of lib outdir quantize s2] conv tok None c'(2)
      by (simp add: raised_by_calls_def)
    finally show ?thesis .
  qed
qed

lemma convert_models_runs_all:
  assumes "set names \<subseteq> set (map fst OPUS_MODELS)"
  shows "\<exists>s'. convert_models lib names outdir quantize s = (Inr (), s') \<and>
           verdicts (out s') = verdicts (out s) @ map (verdict_for lib quantize) names \<and>
           set (files s) \<subseteq> set (files s') \<and>
           (\<forall>n \<in> set names. verdict_for lib quantize n = ConvertedOk n \<longrightarrow>
              set (package_files outdir n) \<subseteq> set (files s'))"
  using assms
proof (induction names arbitrary: s)
  case Nil
  then show ?case by simp
next
  case (Cons n rest)
  from Cons.prems obtain hf where hf: "map_of OPUS_MODELS n = Some hf"
    by (cases "map_of OPUS_MODELS n") (auto simp: map_of_eq_None_iff)
  from Cons.prems have rest: "set rest \<subseteq> set (map fst OPUS_MODELS)" by simp
  define s1 where "s1 = say Separator (say (ConvertingName n) (say Separator s))"
  define s2 where "s2 = snd (try_convert lib (new_converter n hf) outdir quantize s1)"
  have step: "convert_models lib (n # rest) outdir quantize s =
                convert_models lib rest outdir quantize s2"
    by (simp add: hf s1_def s2_def)
  have s1: "verdicts (out s1) = verdicts (out s)" "files s1 = files s"
    by (simp_all add: s1_def say_def verdicts_def)
  have name: "model_name (new_converter n hf) = n"
    by (simp add: new_converter_def)
  have s2: "verdicts (out s2) = verdicts (out s) @ [verdict_for lib quantize n] \<and>
            set (files s) \<subseteq> set (files s2) \<and>
            (verdict_for lib quantize n = ConvertedOk n \<longrightarrow>
               set (package_files outdir n) \<subseteq> set (files s2))"
  proof (cases rule: try_convert_cases [of lib "new_converter n hf" outdir quantize])
    case (failed err fs ls)
    have "raised_by_calls lib quantize n hf = Some err"
      using try_convert_raises [of lib n hf outdir quantize s1] failed(1) [of s1] by simp
    then show ?thesis
      using s1 failed
      by (simp add: s2_def verdict_for_def hf name verdicts_append verdicts_simps)
  next
    case (converted ls)
    have "raised_by_calls lib quantize n hf = None"
      using try_convert_raises [of lib n hf outdir quantize s1] converted(1) [of s1] by simp
    then show ?thesis
      using s1 converted
      by (simp add: s2_def verdict_for_def hf name verdicts_append verdicts_simps)
  qed
  from Cons.IH [OF rest, of s2] obtain s' where
    run: "convert_models lib rest outdir quantize s2 = (Inr (), s')"
    and v: "verdicts (out s') = verdicts (out s2) @ map (verdict_for lib quantize) rest"
    and f: "set (files s2) \<subseteq> set (files s')"
    and p: "\<forall>n \<in> set rest. verdict_for lib quantize n = ConvertedOk n \<longrightarrow>
              set (package_files outdir n) \<subseteq> set (files s')"
    by blast
  show ?case
    using step run v f p s2 by auto
qed

lemma verdicts_subset: "set (verdicts ls) \<subseteq> set ls"
  by (auto simp: verdicts_def)

text \<open>
  C8. For a batch of names known to \<^verbatim>\<open>OPUS_MODELS\<close> the run ends normally, with exit
  status 0, after every name has been attempted. Every name gets exactly one verdict
  line, in the order of the batch. The verdict on a name is decided by the library calls
  made for that name alone: if loading its tokenizer or its model raises, or any later
  call for it raises, the failure line for that name with that exception is printed; if
  none of its calls raises, its success line is printed and its four files are written.
  What another model of the batch raised changes nothing for it. The last lines printed
  are the closing ones.
\<close>

theorem batch_continues_after_failure:
  assumes "set names \<subseteq> set (map fst OPUS_MODELS)"
  shows "\<exists>s'. convert_batch lib names outdir quantize s = (0, s') \<and>
           verdicts (out s') = verdicts (out s) @ map (verdict_for lib quantize) names \<and>
           (\<forall>n \<in> set names. \<forall>hf. map_of OPUS_MODELS n = Some hf \<longrightarrow>
              (\<forall>err. tokenizer_raises lib (source_of lib n hf) = Some err \<longrightarrow>
                     verdict_for lib quantize n = FailedToConvert n err) \<and>
              (\<forall>err. tokenizer_raises lib (source_of lib n hf) = None \<and>
                     model_raises lib (source_of lib n hf) = Some err \<longrightarrow>
                     verdict_for lib quantize n = FailedToConvert n err) \<and>
              (\<forall>err. raised_by_calls lib quantize n hf = Some err \<longrightarrow>
                     verdict_for lib quantize n = FailedToConvert n err \<and>
                     FailedToConvert n err \<in> set (out s')) \<and>
              (raised_by_calls lib quantize n hf = None \<longrightarrow>
                 verdict_for lib quantize n = ConvertedOk n \<and>
                 ConvertedOk n \<in> set (out s') \<and>
                 set (package_files outdir n) \<subseteq> set (files s'))) \<and>
           (\<exists>ls. out s' = ls @ [ConversionComplete, NextSteps])"
proof -
  define s1 where "s1 = say (OutputDirectory outdir) (say (ConvertingCount (length names)) s)"
  from convert_models_runs_all [OF assms, of lib outdir quantize s1] obtain s2 where
    run: "convert_models lib names outdir quantize s1 = (Inr (), s2)"
    and v: "verdicts (out s2) = verdicts (out s1) @ map (verdict_for lib quantize) names"
    and p: "\<forall>n \<in> set names. verdict_for lib quantize n = ConvertedOk n \<longrightarrow>
              set (package_files outdir n) \<subseteq> set (files s2)"
    by blast
  define s' where "s' = say NextSteps (say ConversionComplete s2)"
  have s1: "verdicts (out s1) = verdicts (out s)"
    by (simp add: s1_def say_def verdicts_def)
  have batch: "convert_batch lib names outdir quantize s = (0, s')"
    using run by (simp add: convert_batch_def s1_def s'_def)
  have v': "verdicts (out s') = verdicts (out s) @ map (verdict_for lib quantize) names"
    using v s1 by (simp add: s'_def say_def verdicts_def)
  have files: "files s' = files s2"
    by (simp add: s'_def say_def)
  have printed: "\<forall>n \<in> set names. verdict_for lib quantize n \<in> set (out s')"
  proof
    fix n assume "n \<in> set names"
    then have "verdict_for lib quantize n \<in> set (verdicts (out s'))"
      using v' by simp
    then show "verdict_for lib quantize n \<in> set (out s')"
      using verdicts_subset [of "out s'"] by blast
  qed
  have each: "\<forall>n \<in> set names. \<forall>hf. map_of OPUS_MODELS n = Some hf \<longrightarrow>
              (\<forall>err. tokenizer_raises lib (source_of lib n hf) = Some err \<longrightarrow>
                     verdict_for lib quantize n = FailedToConvert n err) \<and>
              (\<forall>err. tokenizer_raises lib (source_of lib n hf) = None \<and>
                     model_raises lib (source_of lib n hf) = Some err \<longrightarrow>
                     verdict_for lib quantize n = FailedToConvert n err) \<and>
              (\<forall>err. raised_by_calls lib quantize n hf = Some err \<longrightarrow>
                     verdict_for lib quantize n = FailedToConvert n err \<and>
                     FailedToConvert n err \<in> set (out s')) \<and>
              (raised_by_calls lib quantize n hf = None \<longrightarrow>
                 verdict_for lib quantize n = ConvertedOk n \<and>
                 ConvertedOk n \<in> set (out s') \<and>
                 set (package_files outdir n) \<subseteq> set (files s'))"
  proof (intro ballI allI impI)
    fix n hf assume n: "n \<in> set names" and hf: "map_of OPUS_MODELS n = Some hf"
    have tok: "\<forall>err. tokenizer_raises lib (source_of lib n hf) = Some err \<longrightarrow>
                 verdict_for lib quantize n = FailedToConvert n err"
      by (simp add: verdict_for_def hf raised_by_calls_def)
    have mod: "\<forall>err. tokenizer_raises lib (source_of lib n hf) = None \<and>
                     model_raises lib (source_of lib n hf) = Some err \<longrightarrow>
                 verdict_for lib quantize n = FailedToConvert n err"
      by (simp add: verdict_for_def hf raised_by_calls_def)
    have any: "\<forall>err. raised_by_calls lib quantize n hf = Some err \<longrightarrow>
                 verdict_for lib quantize n = FailedToConvert n err \<and>
                 FailedToConvert n err \<in> set (out s')"
      using printed n by (auto simp: verdict_for_def hf)
    have none: "raised_by_calls lib quantize n hf = None \<longrightarrow>
                 verdict_for lib quantize n = ConvertedOk n \<and>
                 ConvertedOk n \<in> set (out s') \<and>
                 set (package_files outdir n) \<subseteq> set (files s')"
      using printed p n files by (auto simp: verdict_for_def hf)
    show "(\<forall>err. tokenizer_raises lib (source_of lib n hf) = Some err \<longrightarrow>
                     verdict_for lib quantize n = FailedToConvert n err) \<and>
              (\<forall>err. tokenizer_raises lib (source_of lib n hf) = None \<and>
                     model_raises lib (source_of lib n hf) = Some err \<longrightarrow>
                     verdict_for lib quantize n = FailedToConvert n err) \<and>
              (\<forall>err. raised_by_calls lib quantize n hf = Some err \<longrightarrow>
                     verdict_for lib quantize n = FailedToConvert n err \<and>
                     FailedToConvert n err \<in> set (out s')) \<and>
              (raised_by_calls lib quantize n hf = None \<longrightarrow>
                 verdict_for lib quantize n = ConvertedOk n \<and>
                 ConvertedOk n \<in> set (out s') \<and>
                 set (package_files outdir n) \<subseteq> set (files s'))"
      using tok mod any none by blast
  qed
  have closing: "\<exists>ls. out s' = ls @ [ConversionComplete, NextSteps]"
    by (simp add: s'_def say_def)
  show ?thesis
    using batch v' each closing by blast
qed

theorem batch_continues_after_failure_witness:
  "set [''en-es'', ''es-en'', ''en-fr''] \<subseteq> set (map fst OPUS_MODELS) \<and>
   map_of OPUS_MODELS ''es-en'' = Some ''Helsinki-NLP/opus-mt-es-en'' \<and>
   model_raises
     \<lparr>raw_model_exists = (\<lambda>p. False), tokenizer_raises = (\<lambda>p. None),
      model_raises = (\<lambda>p. if p = ''Helsinki-NLP/opus-mt-es-en'' then Some ''download failed'' else None),
      hidden_width = (\<lambda>p. 512), trace_raises = (\<lambda>n p. None),
      ct_convert_raises = (\<lambda>n i p. None)\<rparr> ''Helsinki-NLP/opus-mt-es-en'' = Some ''download failed'' \<and>
   (\<exists>s'. convert_batch
            \<lparr>raw_model_exists = (\<lambda>p. False), tokenizer_raises = (\<lambda>p. None),
             model_raises = (\<lambda>p. if p = ''Helsinki-NLP/opus-mt-es-en'' then Some ''download failed'' else None),
             hidden_width = (\<lambda>p. 512), trace_raises = (\<lambda>n p. None),
             ct_convert_raises = (\<lambda>n i p. None)\<rparr>
            [''en-es'', ''es-en'', ''en-fr''] ''dist'' ''float16'' \<lparr>files = [], out = []\<rparr> = (0, s') \<and>
         verdicts (out s') =
           [ConvertedOk ''en-es'', FailedToConvert ''es-en'' ''download failed'', ConvertedOk ''en-fr''] \<and>
         set (package_files ''dist'' ''en-es'') \<subseteq> set (files s') \<and>
         set (package_files ''dist'' ''en-fr'') \<subseteq> set (files s') \<and>
         last (out s') = NextSteps)"
proof -
  let ?lib = "\<lparr>raw_model_exists = (\<lambda>p. False), tokenizer_raises = (\<lambda>p. None),
             model_raises = (\<lambda>p. if p = ''Helsinki-NLP/opus-mt-es-en'' then Some ''download failed'' else None),
             hidden_width = (\<lambda>p. 512), trace_raises = (\<lambda>n p. None),
             ct_convert_raises = (\<lambda>n i p. None)\<rparr>"
  have known: "set [''en-es'', ''es-en'', ''en-fr''] \<subseteq> set (map fst OPUS_MODELS)"
    by (simp add: OPUS_MODELS_def)
  have hf: "map_of OPUS_MODELS ''en-es'' = Some ''Helsinki-NLP/opus-mt-en-es''"
    "map_of OPUS_MODELS ''es-en'' = Some ''Helsinki-NLP/opus-mt-es-en''"
    "map_of OPUS_MODELS ''en-fr'' = Some ''Helsinki-NLP/opus-mt-en-fr''"
    by (simp_all add: OPUS_MODELS_def)
  have r1: "raised_by_calls ?lib ''float16'' ''en-es'' ''Helsinki-NLP/opus-mt-en-es'' = None"
    and r3: "raised_by_calls ?lib ''float16'' ''en-fr'' ''Helsinki-NLP/opus-mt-en-fr'' = None"
    and src: "source_of ?lib ''es-en'' ''Helsinki-NLP/opus-mt-es-en'' = ''Helsinki-NLP/opus-mt-es-en''"
    by (simp_all add: raised_by_calls_def source_of_def)
  from batch_continues_after_failure
         [OF known, of ?lib "''dist''" "''float16''" "\<lparr>files = [], out = []\<rparr>"]
  obtain s' where run: "convert_batch ?lib [''en-es'', ''es-en'', ''en-fr''] ''dist'' ''float16''
                          \<lparr>files = [], out = []\<rparr> = (0, s')"
    and v: "verdicts (out s') = verdicts (out \<lparr>files = [], out = []\<rparr>) @
              map (verdict_for ?lib ''float16'') [''en-es'', ''es-en'', ''en-fr'']"
    and each: "\<forall>n \<in> set [''en-es'', ''es-en'', ''en-fr'']. \<forall>hf. map_of OPUS_MODELS n = Some hf \<longrightarrow>
              (\<forall>err. tokenizer_raises ?lib (source_of ?lib n hf) = Some err \<longrightarrow>
                     verdict_for ?lib ''float16'' n = FailedToConvert n err) \<and>
              (\<forall>err. tokenizer_raises ?lib (source_of ?lib n hf) = None \<and>
                     model_raises ?lib (source_of ?lib n hf) = Some err \<longrightarrow>
                     verdict_for ?lib ''float16'' n = FailedToConvert n err) \<and>
              (\<forall>err. raised_by_calls ?lib ''float16'' n hf = Some err \<longrightarrow>
                     verdict_for ?lib ''float16'' n = FailedToConvert n err \<and>
                     FailedToConvert n err \<in> set (out s')) \<and>
              (raised_by_calls ?lib ''float16'' n hf = None \<longrightarrow>
                 verdict_for ?lib ''float16'' n = ConvertedOk n \<and>
                 ConvertedOk n \<in> set (out s') \<and>
                 set (package_files ''dist'' n) \<subseteq> set (files s'))"
    and l: "\<exists>ls. out s' = ls @ [ConversionComplete, NextSteps]"
    by blast
  have v1: "verdict_for ?lib ''float16'' ''en-es'' = ConvertedOk ''en-es''"
    and f1: "set (package_files ''dist'' ''en-es'') \<subseteq> set (files s')"
    using each hf(1) r1 by auto
  have v3: "verdict_for ?lib ''float16'' ''en-fr'' = ConvertedOk ''en-fr''"
    and f3: "set (package_files ''dist'' ''en-fr'') \<subseteq> set (files s')"
    using each hf(3) r3 by auto
  have "model_raises ?lib (source_of ?lib ''es-en'' ''Helsinki-NLP/opus-mt-es-en'') = Some ''download failed''"
    "tokenizer_raises ?lib (source_of ?lib ''es-en'' ''Helsinki-NLP/opus-mt-es-en'') = None"
    by (simp_all add: src)
  then have v2: "verdict_for ?lib ''float16'' ''es-en'' = FailedToConvert ''es-en'' ''download failed''"
    using each hf(2) by auto
  have "verdicts (out s') =
          [ConvertedOk ''en-es'', FailedToConvert ''es-en'' ''download failed'', ConvertedOk ''en-fr'']"
    using v v1 v2 v3 by (simp add: verdicts_def)
  moreover have "last (out s') = NextSteps"
    using l by auto
  moreover have "model_raises ?lib ''Helsinki-NLP/opus-mt-es-en'' = Some ''download failed''"
    by simp
  ultimately show ?thesis
    using known run f1 f3 hf(2) by blast
qed

section \<open>Properties of the validation tool\<close>








end
